theory Spec2Isabelle
  imports Main "HOL-Library.Sublist"
begin

section \<open>JavaScript values, as far as the server uses them\<close>

text \<open>
  A JavaScript string is the sequence of its UTF-16 code units; \<open>length\<close>, \<open>slice\<close> and
  \<open>includes\<close> count and compare code units. \<open>utf16\<close> embeds an ASCII literal; the
  characters of the source outside ASCII are written as their code units.
\<close>

type_synonym jsstring = "nat list"

definition utf16 :: "string \<Rightarrow> jsstring" where
  "utf16 s = map of_char s"

definition nl :: jsstring where "nl = [0x0A]"
definition dq :: jsstring where "dq = [0x22]"
definition apos :: jsstring where "apos = [0x27]"
definition emdash :: jsstring where "emdash = [0x2014]"
definition arrow :: jsstring where "arrow = [0x2192]"
definition hourglass :: jsstring where "hourglass = [0x23F3]"
definition cross :: jsstring where "cross = [0x274C]"
definition check :: jsstring where "check = [0x2705]"
definition wrench :: jsstring where "wrench = [0xD83D, 0xDD27]"
definition plug :: jsstring where "plug = [0xD83D, 0xDD0C]"
definition party :: jsstring where "party = [0xD83C, 0xDF89]"
definition trophy :: jsstring where "trophy = [0xD83C, 0xDFC6]"
definition robot :: jsstring where "robot = [0xD83E, 0xDD16]"
definition bulb :: jsstring where "bulb = [0xD83D, 0xDCA1]"

text \<open>
  The values that reach the tools are parsed JSON, and \<open>undefined\<close> where a property is
  missing. \<open>Obj\<close> lists the own properties of an object in property order, each key once.

  A number is given by the text that JavaScript prints for it (\<open>Number::toString\<close>):
  \<open>5\<close>, \<open>-3\<close>, \<open>1.5\<close>, \<open>1e+21\<close>, \<open>Infinity\<close>, \<open>NaN\<close>; both zeros print as \<open>0\<close>. All that the
  server does with a number it did not compute itself is a function of that text: it
  prints the number, tests it for truth, and compares it with zero.
\<close>

type_synonym jsnum = jsstring

datatype jsval =
    Undefined
  | Null
  | Bool bool
  | Num jsnum
  | Str jsstring
  | Arr "jsval list"
  | Obj "(jsstring \<times> jsval) list"

text \<open>
  What a \<open>throw\<close> carries: the server's own \<open>ApiError\<close> (status, body), any other
  \<open>Error\<close> with its message (the \<open>TypeError\<close> and \<open>SyntaxError\<close> of the runtime), or a
  thrown value that is no \<open>Error\<close> at all. A computation that may throw returns
  \<open>exn + 'a\<close>. The messages of the runtime's own errors are worded as V8, the engine
  of Node, words them.
\<close>

datatype exn =
    ApiError nat jsstring
  | Error jsstring
  | Thrown

definition and_then :: "exn + 'a \<Rightarrow> ('a \<Rightarrow> exn + 'b) \<Rightarrow> exn + 'b" where
  "and_then m f = (case m of Inl e \<Rightarrow> Inl e | Inr v \<Rightarrow> f v)"

subsection \<open>Numbers to text\<close>

text \<open>
  The numbers that the server computes itself (an index plus one, a length, a status
  code, the chain id) are natural numbers far below \<open>10^21\<close>, and such a number prints as
  its decimal digits.
\<close>

function digits :: "nat \<Rightarrow> jsstring" where
  "digits n = (if n < 10 then [48 + n] else digits (n div 10) @ [48 + n mod 10])"
  by pat_completeness auto
termination
  by (relation "measure id") auto

declare digits.simps [simp del]

subsection \<open>Truthiness, conversion to string, property reads\<close>

fun truthy :: "jsval \<Rightarrow> bool" where
  "truthy Undefined = False"
| "truthy Null = False"
| "truthy (Bool b) = b"
| "truthy (Num n) = (n \<noteq> utf16 ''0'' \<and> n \<noteq> utf16 ''NaN'')"
| "truthy (Str s) = (s \<noteq> [])"
| "truthy (Arr xs) = True"
| "truthy (Obj kvs) = True"

text \<open>\<open>a || b\<close> on values.\<close>

definition or_else :: "jsval \<Rightarrow> jsval \<Rightarrow> jsval" where
  "or_else a b = (if truthy a then a else b)"

text \<open>
  \<open>ToString\<close> is what a template literal \<open>`${v}`\<close> and \<open>+=\<close> on a string apply. An array
  joins its elements with commas, \<open>null\<close> and \<open>undefined\<close> elements as the empty string.
  A parsed object has no callable property, so it prints through
  \<open>Object.prototype.toString\<close>, unless an own property named \<open>toString\<close> shadows that
  method: then the conversion throws a \<open>TypeError\<close>.
\<close>

fun ToString :: "jsval \<Rightarrow> exn + jsstring"
  and join_comma :: "jsval list \<Rightarrow> exn + jsstring" where
  "ToString Undefined = Inr (utf16 ''undefined'')"
| "ToString Null = Inr (utf16 ''null'')"
| "ToString (Bool b) = Inr (if b then utf16 ''true'' else utf16 ''false'')"
| "ToString (Num n) = Inr n"
| "ToString (Str s) = Inr s"
| "ToString (Arr xs) = join_comma xs"
| "ToString (Obj kvs) =
     (if map_of kvs (utf16 ''toString'') \<noteq> None
      then Inl (Error (utf16 ''Cannot convert object to primitive value''))
      else Inr (utf16 ''[object Object]''))"
| "join_comma [] = Inr []"
| "join_comma (x # xs) =
     and_then (if x = Undefined \<or> x = Null then Inr [] else ToString x) (\<lambda>s.
       if xs = [] then Inr s
       else and_then (join_comma xs) (\<lambda>rest. Inr (s @ utf16 '','' @ rest)))"

text \<open>
  A property read \<open>v.k\<close>. Reading from \<open>null\<close> or \<open>undefined\<close> throws; any other value
  gives the own property or \<open>undefined\<close>. The names the server reads this way are no
  built-in property of a string, array, number, boolean or plain object; \<open>length\<close> and
  \<open>slice\<close> have their own functions below.
\<close>

definition cannot_read :: "jsstring \<Rightarrow> jsstring \<Rightarrow> exn" where
  "cannot_read what k =
     Error (utf16 ''Cannot read properties of '' @ what @ utf16 '' (reading '' @ apos @ k
       @ apos @ utf16 '')'')"

fun get :: "jsval \<Rightarrow> jsstring \<Rightarrow> exn + jsval" where
  "get Undefined k = Inl (cannot_read (utf16 ''undefined'') k)"
| "get Null k = Inl (cannot_read (utf16 ''null'') k)"
| "get (Obj kvs) k = Inr (case map_of kvs k of None \<Rightarrow> Undefined | Some v \<Rightarrow> v)"
| "get v k = Inr Undefined"

text \<open>\<open>s.includes(t)\<close>.\<close>

primrec str_includes :: "'a list \<Rightarrow> 'a list \<Rightarrow> bool" where
  "str_includes [] t = (t = [])"
| "str_includes (x # xs) t = (prefix t (x # xs) \<or> str_includes xs t)"

subsection \<open>Lengths, slices, arrays\<close>

text \<open>
  \<open>slice(start, end)\<close> of a string or an array: a negative index counts from the end,
  both indices are clamped to the length, and a missing \<open>end\<close> is the length.
\<close>

definition clamp_index :: "nat \<Rightarrow> int \<Rightarrow> nat" where
  "clamp_index len i = (if i < 0 then nat (max (int len + i) 0) else min (nat i) len)"

definition js_slice :: "'a list \<Rightarrow> int \<Rightarrow> int option \<Rightarrow> 'a list" where
  "js_slice xs start end =
     (let len = length xs;
          from = clamp_index len start;
          to = (case end of None \<Rightarrow> len | Some e \<Rightarrow> clamp_index len e)
      in take (to - from) (drop from xs))"

definition not_a_function :: "jsstring \<Rightarrow> exn" where
  "not_a_function expr = Error (expr @ utf16 '' is not a function'')"

text \<open>
  The method call \<open>v.slice(start, end)\<close>, written \<open>expr\<close> in the source: strings and
  arrays have the method, \<open>null\<close> and \<open>undefined\<close> have no properties, and on anything
  else \<open>slice\<close> is no function.
\<close>

fun call_slice :: "jsstring \<Rightarrow> jsval \<Rightarrow> int \<Rightarrow> int option \<Rightarrow> exn + jsval" where
  "call_slice expr Undefined a b = Inl (cannot_read (utf16 ''undefined'') (utf16 ''slice''))"
| "call_slice expr Null a b = Inl (cannot_read (utf16 ''null'') (utf16 ''slice''))"
| "call_slice expr (Str s) a b = Inr (Str (js_slice s a b))"
| "call_slice expr (Arr xs) a b = Inr (Arr (js_slice xs a b))"
| "call_slice expr v a b = Inl (not_a_function (expr @ utf16 ''.slice''))"

text \<open>\<open>v.length\<close>: built in for strings and arrays, an own property elsewhere.\<close>

fun length_of :: "jsval \<Rightarrow> exn + jsval" where
  "length_of Undefined = Inl (cannot_read (utf16 ''undefined'') (utf16 ''length''))"
| "length_of Null = Inl (cannot_read (utf16 ''null'') (utf16 ''length''))"
| "length_of (Str s) = Inr (Num (digits (length s)))"
| "length_of (Arr xs) = Inr (Num (digits (length xs)))"
| "length_of v = get v (utf16 ''length'')"

text \<open>
  The receiver of \<open>v.forEach(...)\<close> or \<open>v.map(...)\<close>: only an array has these methods.
\<close>

fun array_method :: "jsstring \<Rightarrow> jsstring \<Rightarrow> jsval \<Rightarrow> exn + jsval list" where
  "array_method expr m Undefined = Inl (cannot_read (utf16 ''undefined'') m)"
| "array_method expr m Null = Inl (cannot_read (utf16 ''null'') m)"
| "array_method expr m (Arr xs) = Inr xs"
| "array_method expr m v = Inl (not_a_function (expr @ utf16 ''.'' @ m))"

text \<open>\<open>Array.isArray(v)\<close>.\<close>

fun isArray :: "jsval \<Rightarrow> bool" where
  "isArray (Arr xs) = True"
| "isArray v = False"

text \<open>\<open>s.trim()\<close> removes the white space and line terminators at both ends.\<close>

definition is_space :: "nat \<Rightarrow> bool" where
  "is_space c =
     (c \<in> set [0x09, 0x0A, 0x0B, 0x0C, 0x0D, 0x20, 0xA0, 0x1680, 0x2028, 0x2029, 0x202F,
               0x205F, 0x3000, 0xFEFF]
      \<or> (0x2000 \<le> c \<and> c \<le> 0x200A))"

definition trim :: "jsstring \<Rightarrow> jsstring" where
  "trim s = rev (dropWhile is_space (rev (dropWhile is_space s)))"

subsection \<open>\<open>JSON.stringify\<close>\<close>

definition hex_digit :: "nat \<Rightarrow> nat" where
  "hex_digit d = (if d < 10 then 48 + d else 87 + d)"

definition unicode_escape :: "nat \<Rightarrow> jsstring" where
  "unicode_escape c =
     [0x5C, 0x75] @ map hex_digit [c div 4096 mod 16, c div 256 mod 16, c div 16 mod 16, c mod 16]"

definition is_high :: "nat \<Rightarrow> bool" where
  "is_high c = (0xD800 \<le> c \<and> c \<le> 0xDBFF)"

definition is_low :: "nat \<Rightarrow> bool" where
  "is_low c = (0xDC00 \<le> c \<and> c \<le> 0xDFFF)"

text \<open>
  The characters of a quoted string: the short escapes, \<open>\uXXXX\<close> for the other control
  characters and for a surrogate without its partner, everything else as it is.
\<close>

fun quote_units :: "jsstring \<Rightarrow> jsstring" where
  "quote_units [] = []"
| "quote_units [c] =
     (if c = 0x08 then [0x5C, 0x62] else if c = 0x09 then [0x5C, 0x74]
      else if c = 0x0A then [0x5C, 0x6E] else if c = 0x0C then [0x5C, 0x66]
      else if c = 0x0D then [0x5C, 0x72] else if c = 0x22 then [0x5C, 0x22]
      else if c = 0x5C then [0x5C, 0x5C]
      else if c < 0x20 \<or> is_high c \<or> is_low c then unicode_escape c
      else [c])"
| "quote_units (c # d # ds) =
     (if is_high c \<and> is_low d then c # d # quote_units ds
      else quote_units [c] @ quote_units (d # ds))"

definition QuoteJSONString :: "jsstring \<Rightarrow> jsstring" where
  "QuoteJSONString s = dq @ quote_units s @ dq"

fun join :: "jsstring \<Rightarrow> jsstring list \<Rightarrow> jsstring" where
  "join sep [] = []"
| "join sep [x] = x"
| "join sep (x # y # ys) = x @ sep @ join sep (y # ys)"

text \<open>
  The brackets around the serialised elements or members: nothing between them when
  there are none, one line when the gap is empty, one line each otherwise.
\<close>

definition bracket :: "jsstring \<Rightarrow> jsstring \<Rightarrow> jsstring \<Rightarrow> jsstring \<Rightarrow> jsstring list \<Rightarrow> jsstring" where
  "bracket l r gap stepback partial =
     (if partial = [] then l @ r
      else if gap = [] then l @ join (utf16 '','') partial @ r
      else l @ nl @ stepback @ gap @ join (utf16 '','' @ nl @ stepback @ gap) partial
             @ nl @ stepback @ r)"

text \<open>
  \<open>serialize gap indent v\<close> is the text of \<open>v\<close>, or \<open>None\<close> for \<open>undefined\<close>; an
  \<open>undefined\<close> array element prints as \<open>null\<close> and an \<open>undefined\<close> member is left out.
  Parsed values have no \<open>toJSON\<close> method to call.
\<close>

fun serialize :: "jsstring \<Rightarrow> jsstring \<Rightarrow> jsval \<Rightarrow> jsstring option"
  and serialize_elements :: "jsstring \<Rightarrow> jsstring \<Rightarrow> jsval list \<Rightarrow> jsstring list"
  and serialize_members :: "jsstring \<Rightarrow> jsstring \<Rightarrow> (jsstring \<times> jsval) list \<Rightarrow> jsstring list" where
  "serialize gap indent Undefined = None"
| "serialize gap indent Null = Some (utf16 ''null'')"
| "serialize gap indent (Bool b) = Some (if b then utf16 ''true'' else utf16 ''false'')"
| "serialize gap indent (Num n) =
     Some (if n = utf16 ''Infinity'' \<or> n = utf16 ''-Infinity'' \<or> n = utf16 ''NaN''
           then utf16 ''null'' else n)"
| "serialize gap indent (Str s) = Some (QuoteJSONString s)"
| "serialize gap indent (Arr xs) =
     Some (bracket (utf16 ''['') (utf16 '']'') gap indent (serialize_elements gap (indent @ gap) xs))"
| "serialize gap indent (Obj kvs) =
     Some (bracket (utf16 ''{'') (utf16 ''}'') gap indent (serialize_members gap (indent @ gap) kvs))"
| "serialize_elements gap indent [] = []"
| "serialize_elements gap indent (x # xs) =
     (case serialize gap indent x of None \<Rightarrow> utf16 ''null'' | Some t \<Rightarrow> t)
       # serialize_elements gap indent xs"
| "serialize_members gap indent [] = []"
| "serialize_members gap indent (kv # kvs) =
     (case serialize gap indent (snd kv) of
        None \<Rightarrow> serialize_members gap indent kvs
      | Some t \<Rightarrow>
          (QuoteJSONString (fst kv) @ utf16 '':'' @ (if gap = [] then [] else utf16 '' '') @ t)
            # serialize_members gap indent kvs)"

text \<open>\<open>JSON.stringify(v)\<close> and \<open>JSON.stringify(v, null, 2)\<close>.\<close>

definition JSON_stringify :: "jsval \<Rightarrow> jsstring option" where
  "JSON_stringify v = serialize [] [] v"

definition JSON_stringify_2 :: "jsval \<Rightarrow> jsstring option" where
  "JSON_stringify_2 v = serialize (utf16 ''  '') [] v"

section \<open>The runtime and the HTTP helpers\<close>

text \<open>
  What the process is given: the JSON parser of the runtime, the network behind \<open>fetch\<close>
  (a rejection, or a response with its status and its body text, which may fail to
  read), the environment variable that overrides the base URL, and the runtime's test
  whether a string, read as a number, is greater than zero.
\<close>

datatype response = Response (res_status: nat) (res_text: "exn + jsstring")

datatype http_request = GET jsstring | POST jsstring "jsstring option"

record runtime =
  JSON_parse :: "jsstring \<Rightarrow> exn + jsval"
  fetch :: "http_request \<Rightarrow> exn + response"
  LUCILLE_API_URL :: "jsstring option"
  string_gt_zero :: "jsstring \<Rightarrow> bool"

definition API_URL :: "runtime \<Rightarrow> jsstring" where
  "API_URL rt =
     (case LUCILLE_API_URL rt of
        Some u \<Rightarrow> if u \<noteq> [] then u else utf16 ''https://lucille.world/api/brain''
      | None \<Rightarrow> utf16 ''https://lucille.world/api/brain'')"

definition res_ok :: "response \<Rightarrow> bool" where
  "res_ok res = (200 \<le> res_status res \<and> res_status res \<le> 299)"

definition res_json :: "runtime \<Rightarrow> response \<Rightarrow> exn + jsval" where
  "res_json rt res = and_then (res_text res) (JSON_parse rt)"

definition respond :: "runtime \<Rightarrow> exn + response \<Rightarrow> exn + jsval" where
  "respond rt r =
     and_then r (\<lambda>res.
       if \<not> res_ok res
       then Inl (ApiError (res_status res) (case res_text res of Inl e \<Rightarrow> [] | Inr b \<Rightarrow> b))
       else res_json rt res)"

definition apiGet :: "runtime \<Rightarrow> jsstring \<Rightarrow> exn + jsval" where
  "apiGet rt path = respond rt (fetch rt (GET (API_URL rt @ path)))"

datatype content_item = Text_item jsstring

type_synonym tool_result = "content_item list"

definition textContent :: "jsstring \<Rightarrow> tool_result" where
  "textContent text = [Text_item text]"

definition rate_limited :: "jsstring \<Rightarrow> jsstring" where
  "rate_limited wait =
     hourglass @ utf16 '' Rate limited '' @ emdash @ utf16 '' wait '' @ wait
       @ utf16 '' seconds and try again.'' @ nl
       @ utf16 ''Limit: 3 plays/min per wallet, 60 reads/min.''"

definition errorContent :: "runtime \<Rightarrow> exn \<Rightarrow> exn + tool_result" where
  "errorContent rt err =
     (case err of
        ApiError status body \<Rightarrow>
          if status = 429 then
            (case and_then (JSON_parse rt body) (\<lambda>parsed.
                    and_then (get parsed (utf16 ''retry_after_seconds'')) (\<lambda>r.
                    and_then (ToString (or_else r (Num (utf16 ''60'')))) (\<lambda>wait.
                    Inr (textContent (rate_limited wait))))) of
               Inl e \<Rightarrow> Inr (textContent (rate_limited (utf16 ''60'')))
             | Inr res \<Rightarrow> Inr res)
          else if status = 400 then
            Inr (textContent (cross @ utf16 '' Bad request: ''
              @ (if body \<noteq> [] then body else utf16 ''Check your parameters.'') @ nl
              @ utf16 ''Double-check wallet address format (0x... 42 chars) and message length (1-500 chars).''))
          else if status = 503 then
            Inr (textContent (wrench
              @ utf16 '' Lucille is sleeping (maintenance). Try again in a few minutes.''))
          else
            Inr (textContent (cross @ utf16 '' API error ('' @ digits status
              @ utf16 ''): '' @ (if body \<noteq> [] then body else utf16 ''Unknown error'') @ nl
              @ utf16 ''If this persists, the game may be temporarily unavailable.''))
      | Error message \<Rightarrow>
          if str_includes message (utf16 ''fetch failed'')
            \<or> str_includes message (utf16 ''ECONNREFUSED'')
          then Inr (textContent (plug
            @ utf16 '' Cannot reach Lucille API. The server may be down or the URL may be wrong.''
            @ nl @ utf16 ''Default: https://lucille.world/api/brain''))
          else Inr (textContent (cross @ utf16 '' Error: '' @ message))
      | Thrown \<Rightarrow>
          Inr (textContent (cross @ utf16 '' An unexpected error occurred. Try again.'')))"

text \<open>The handler shape of every tool that calls the API:
  \<open>try { ... } catch (err) { return errorContent(err); }\<close>.\<close>

definition try_catch :: "runtime \<Rightarrow> exn + tool_result \<Rightarrow> exn + tool_result" where
  "try_catch rt m = (case m of Inl err \<Rightarrow> errorContent rt err | Inr res \<Rightarrow> Inr res)"

definition apiPost :: "runtime \<Rightarrow> jsstring \<Rightarrow> jsval \<Rightarrow> exn + jsval" where
  "apiPost rt path body = respond rt (fetch rt (POST (API_URL rt @ path) (JSON_stringify body)))"

section \<open>Templates\<close>

text \<open>
  A template literal is evaluated from left to right; the first part that throws ends
  it. \<open>lit\<close> is a fixed part, \<open>field v k\<close> is \<open>${v.k}\<close>, \<open>opt_get v k\<close> is \<open>v?.k\<close>.
\<close>

fun template :: "(exn + jsstring) list \<Rightarrow> exn + jsstring" where
  "template [] = Inr []"
| "template (p # ps) = and_then p (\<lambda>s. and_then (template ps) (\<lambda>rest. Inr (s @ rest)))"

definition lit :: "jsstring \<Rightarrow> exn + jsstring" where
  "lit s = Inr s"

definition field :: "jsval \<Rightarrow> jsstring \<Rightarrow> exn + jsstring" where
  "field v k = and_then (get v k) ToString"

definition opt_get :: "jsval \<Rightarrow> jsstring \<Rightarrow> exn + jsval" where
  "opt_get v k = (if v = Undefined \<or> v = Null then Inr Undefined else get v k)"

definition opt_field :: "jsval \<Rightarrow> jsstring \<Rightarrow> jsstring \<Rightarrow> exn + jsstring" where
  "opt_field v k k' = and_then (and_then (get v k) (\<lambda>w. opt_get w k')) ToString"

text \<open>\<open>${JSON.stringify(v)}\<close>: an \<open>undefined\<close> result prints as such.\<close>

definition stringify_text :: "jsstring option \<Rightarrow> jsstring" where
  "stringify_text r = (case r of None \<Rightarrow> utf16 ''undefined'' | Some t \<Rightarrow> t)"

section \<open>The tools\<close>

subsection \<open>Tool 1: rules\<close>

definition rules_text :: jsstring where
  "rules_text =
     utf16 ''# Lucille Protocol '' @ emdash @ utf16 '' Game Rules'' @ nl @ nl
       @ utf16 ''## What is this?'' @ nl
       @ utf16 ''Lucille Protocol is an AI-powered game on Base (Ethereum L2). ''
       @ nl
       @ utf16 ''You send a message trying to convince Lucille to go on a date. ''
       @ nl @ utf16 ''An AI evaluates your message and gives you a score (0-100).''
       @ nl @ utf16 ''If your score >= the threshold, you WIN the jackpot (ETH).''
       @ nl @ nl @ utf16 ''## How Scoring Works'' @ nl
       @ utf16 ''- Your message is evaluated by an AI (Claude) based on creativity, charm, and personality match''
       @ nl @ utf16 ''- The threshold starts high (~95%) and decreases over turns''
       @ nl @ utf16 ''- Lucille has a personality that changes each round ''
       @ emdash @ utf16 '' read it and tailor your message!'' @ nl @ nl
       @ utf16 ''## How to Win'' @ nl
       @ utf16 ''1. Call lucille_personality to learn who Lucille is right now''
       @ nl @ utf16 ''2. Call lucille_round_strategy to see the threshold and tips''
       @ nl @ utf16 ''3. Call lucille_play with a thoughtful, creative message''
       @ nl @ utf16 ''4. If score >= threshold '' @ arrow
       @ utf16 '' you WIN! ETH is sent to your wallet automatically'' @ nl @ nl
       @ utf16 ''## Cost (Sepolia Testnet)'' @ nl
       @ utf16 ''- Free to play! Use lucille_claim_eth to get test ETH for gas''
       @ nl @ utf16 ''- Rate limit: 3 plays per minute'' @ nl @ nl
       @ utf16 ''## Important'' @ nl
       @ utf16 ''- Quality > quantity. One great message beats 100 generic ones''
       @ nl @ utf16 ''- Read Lucille's likes, hates, and mood before playing'' @ nl
       @ utf16 ''- Never break her character '' @ emdash
       @ utf16 '' she's a real person, not a bot'' @ nl
       @ utf16 ''- On mainnet: each play costs gas. Calculate your ROI.''"

definition lucille_rules :: "exn + tool_result" where
  "lucille_rules = Inr (textContent rules_text)"

subsection \<open>Tool 2: status\<close>

definition status_text :: "jsval \<Rightarrow> exn + jsstring" where
  "status_text data =
     and_then (get data (utf16 ''round'')) (\<lambda>round.
     and_then (get data (utf16 ''turn'')) (\<lambda>turn.
     and_then (template [field data (utf16 ''jackpot''), lit (utf16 '' ETH'')]) (\<lambda>jackpot.
     and_then (template [field data (utf16 ''threshold''), lit (utf16 ''%'')]) (\<lambda>threshold.
     and_then (get data (utf16 ''phase'')) (\<lambda>phase.
     and_then (and_then (get data (utf16 ''personality'')) (\<lambda>p. opt_get p (utf16 ''name''))) (\<lambda>name.
     and_then (and_then (get data (utf16 ''personality'')) (\<lambda>p. opt_get p (utf16 ''emoji''))) (\<lambda>emoji.
     Inr (stringify_text (JSON_stringify_2 (Obj
       [(utf16 ''round'', round),
        (utf16 ''turn'', turn),
        (utf16 ''jackpot'', Str jackpot),
        (utf16 ''threshold'', Str threshold),
        (utf16 ''phase'', phase),
        (utf16 ''personality'', name),
        (utf16 ''personality_emoji'', emoji),
        (utf16 ''network'', Str (utf16 ''base-sepolia''))]))))))))))"

definition lucille_status :: "runtime \<Rightarrow> exn + tool_result" where
  "lucille_status rt =
     try_catch rt
       (and_then (apiGet rt (utf16 ''/api/game-state'')) (\<lambda>data.
        and_then (status_text data) (\<lambda>text. Inr (textContent text))))"

subsection \<open>Tool 3: personality\<close>

definition personality_text :: "jsval \<Rightarrow> exn + jsstring" where
  "personality_text data =
     and_then (get data (utf16 ''name'')) (\<lambda>name.
     and_then (get data (utf16 ''emoji'')) (\<lambda>emoji.
     and_then (get data (utf16 ''mood'')) (\<lambda>mood.
     and_then (get data (utf16 ''description'')) (\<lambda>description.
     and_then (get data (utf16 ''tip'')) (\<lambda>tip.
     and_then (get data (utf16 ''likes'')) (\<lambda>likes.
     and_then (get data (utf16 ''hates'')) (\<lambda>hates.
     and_then (get data (utf16 ''visual_prompt'')) (\<lambda>visual_prompt.
     Inr (stringify_text (JSON_stringify_2 (Obj
       [(utf16 ''name'', name),
        (utf16 ''emoji'', emoji),
        (utf16 ''mood'', mood),
        (utf16 ''description'', description),
        (utf16 ''tip'', tip),
        (utf16 ''likes'', likes),
        (utf16 ''hates'', hates),
        (utf16 ''visual_prompt'', visual_prompt)])))))))))))"

definition lucille_personality :: "runtime \<Rightarrow> exn + tool_result" where
  "lucille_personality rt =
     try_catch rt
       (and_then (apiGet rt (utf16 ''/api/personality'')) (\<lambda>data.
        and_then (personality_text data) (\<lambda>text. Inr (textContent text))))"

subsection \<open>Tool 4: play\<close>

definition opt_str :: "jsstring option \<Rightarrow> jsval" where
  "opt_str x = (case x of None \<Rightarrow> Undefined | Some s \<Rightarrow> Str s)"

definition play_victory :: "jsstring \<Rightarrow> jsval \<Rightarrow> exn + jsstring" where
  "play_victory player data =
     template
       [lit (nl @ trophy @ utf16 '' VICTORY!'' @ nl),
        lit (utf16 ''Prize: ''),
        and_then (get data (utf16 ''prize_eth'')) (\<lambda>prize.
        and_then (get data (utf16 ''jackpot'')) (\<lambda>jackpot. ToString (or_else prize jackpot))),
        lit ((utf16 '' ETH '' @ arrow @ utf16 '' sent to '') @ player @ nl),
        and_then (get data (utf16 ''nft_token_id'')) (\<lambda>nft.
          if truthy nft
          then template [lit (utf16 ''NFT: Token #''), field data (utf16 ''nft_token_id''), lit nl]
          else Inr []),
        and_then (get data (utf16 ''nft_opensea_url'')) (\<lambda>url.
          if truthy url
          then template [lit (utf16 ''OpenSea: ''), field data (utf16 ''nft_opensea_url''), lit nl]
          else Inr []),
        and_then (get data (utf16 ''message_to_agent'')) (\<lambda>m. ToString (or_else m (Str [])))]"

definition play_text :: "jsstring \<Rightarrow> jsval \<Rightarrow> exn + jsstring" where
  "play_text player data =
     template
       [lit (utf16 ''Score: ''), field data (utf16 ''score''), lit (utf16 ''/''), field data (utf16 ''threshold''),
        lit (utf16 '' (need ''), field data (utf16 ''threshold''), lit (utf16 ''% to win)'' @ nl),
        lit (utf16 ''Won: ''),
        and_then (get data (utf16 ''won'')) (\<lambda>won.
          Inr (if truthy won then (party @ utf16 '' YES!'') else (cross @ utf16 '' No''))),
        lit nl,
        lit (utf16 ''Lucille says: '' @ dq), field data (utf16 ''response''), lit (dq @ nl),
        lit (utf16 ''Personality: ''), field data (utf16 ''personality''), lit (utf16 '' ''),
        field data (utf16 ''personality_emoji''), lit nl,
        lit (utf16 ''Round ''), field data (utf16 ''round''), lit (utf16 '', Turn ''), field data (utf16 ''turn''),
        lit (utf16 '' (''), field data (utf16 ''phase''), lit (utf16 '')'' @ nl),
        lit (utf16 ''Jackpot: ''), field data (utf16 ''jackpot''), lit (utf16 '' ETH'' @ nl),
        and_then (get data (utf16 ''won'')) (\<lambda>won.
          if truthy won then play_victory player data else Inr [])]"

definition lucille_play ::
  "runtime \<Rightarrow> jsstring \<Rightarrow> jsstring \<Rightarrow> jsstring option \<Rightarrow> jsstring option \<Rightarrow> exn + tool_result" where
  "lucille_play rt message player tx_hash agent_name =
     try_catch rt
       (and_then
          (apiPost rt (utf16 ''/api/agent/play'')
             (Obj [(utf16 ''message'', Str message),
                   (utf16 ''player'', Str player),
                   (utf16 ''tx_hash'', opt_str tx_hash),
                   (utf16 ''agent_name'', opt_str agent_name)]))
          (\<lambda>data. and_then (play_text player data) (\<lambda>text. Inr (textContent text))))"

subsection \<open>Tool 5: history\<close>

text \<open>An optional parameter is its value or \<open>undefined\<close>.\<close>

definition opt_num :: "jsnum option \<Rightarrow> jsval" where
  "opt_num x = (case x of None \<Rightarrow> Undefined | Some n \<Rightarrow> Num n)"

definition history_query :: "jsnum \<Rightarrow> jsnum option \<Rightarrow> jsstring option \<Rightarrow> exn + jsstring" where
  "history_query limit round player =
     template
       [lit (utf16 ''/api/history?limit=''), ToString (Num limit),
        if truthy (opt_num round) then template [lit (utf16 ''&round=''), ToString (opt_num round)]
        else Inr [],
        if truthy (opt_str player) then template [lit (utf16 ''&player=''), ToString (opt_str player)]
        else Inr []]"

definition attempts_of :: "jsval \<Rightarrow> exn + jsval" where
  "attempts_of data =
     (if isArray data then Inr data
      else and_then (get data (utf16 ''attempts'')) (\<lambda>a. Inr (or_else a (Arr []))))"

definition group_key :: "jsval \<Rightarrow> exn + jsstring" where
  "group_key a =
     template
       [and_then (get a (utf16 ''personality'')) (\<lambda>p. ToString (or_else p (Str (utf16 ''Unknown'')))),
        lit (utf16 '' (Round ''),
        and_then (get a (utf16 ''round'')) (\<lambda>r. ToString (or_else r (Str (utf16 ''?'')))),
        lit (utf16 '')'')]"

text \<open>
  \<open>grouped\<close> is an object used as a dictionary; its entries are listed in insertion
  order. (Every key ends in a parenthesis, so none is an index or a built-in name.)
\<close>

type_synonym groups = "(jsstring \<times> jsval list) list"

definition push_group :: "groups \<Rightarrow> jsstring \<Rightarrow> jsval \<Rightarrow> groups" where
  "push_group grouped key a =
     (if map_of grouped key = None then grouped @ [(key, [a])]
      else map (\<lambda>(k, items). if k = key then (k, items @ [a]) else (k, items)) grouped)"

fun group_attempts :: "jsval list \<Rightarrow> groups \<Rightarrow> exn + groups" where
  "group_attempts [] grouped = Inr grouped"
| "group_attempts (a # as) grouped =
     and_then (group_key a) (\<lambda>key. group_attempts as (push_group grouped key a))"

definition history_header :: "jsnum option \<Rightarrow> jsstring option \<Rightarrow> jsval \<Rightarrow> exn + jsstring" where
  "history_header round player attempts =
     (if truthy (opt_num round)
      then template
             [lit (utf16 ''=== Attempts for Round ''), ToString (opt_num round),
              lit (utf16 '' ==='' @ nl @ nl)]
      else if truthy (opt_str player)
      then template
             [lit (utf16 ''=== Attempts by ''),
              and_then (call_slice (utf16 ''player'') (opt_str player) 0 (Some 10)) ToString,
              lit (utf16 ''... ==='' @ nl @ nl)]
      else template
             [lit (utf16 ''=== Recent ''), and_then (length_of attempts) ToString,
              lit (utf16 '' Attempts ==='' @ nl @ nl)])"

definition history_badge :: "jsval \<Rightarrow> exn + jsstring" where
  "history_badge a =
     and_then (get a (utf16 ''won'')) (\<lambda>won.
       if truthy won then Inr (trophy @ utf16 '' WIN'')
       else template [lit (utf16 ''Score: ''), field a (utf16 ''score'')])"

definition history_source :: "jsval \<Rightarrow> exn + jsstring" where
  "history_source a =
     and_then (get a (utf16 ''source'')) (\<lambda>source.
       Inr (if source = Str (utf16 ''agent'') then utf16 '' '' @ robot else []))"

definition history_addr :: "jsval \<Rightarrow> exn + jsstring" where
  "history_addr a =
     and_then (get a (utf16 ''player'')) (\<lambda>player.
       if truthy player
       then template
              [and_then (call_slice (utf16 ''a.player'') player 0 (Some 6)) ToString,
               lit (utf16 ''...''),
               and_then (call_slice (utf16 ''a.player'') player (- 4) None) ToString]
       else Inr (utf16 ''???''))"

text \<open>\<open>${(a.k || "").slice(0, 200)}\<close>, for the message and the response.\<close>

definition history_clip :: "jsval \<Rightarrow> jsstring \<Rightarrow> exn + jsstring" where
  "history_clip a k =
     and_then (get a k) (\<lambda>m.
     and_then
       (call_slice (utf16 ''(a.'' @ k @ utf16 '' || '' @ dq @ dq @ utf16 '')'')
          (or_else m (Str [])) 0 (Some 200))
       ToString)"

definition history_item :: "nat \<Rightarrow> jsval \<Rightarrow> exn + jsstring" where
  "history_item i a =
     and_then (history_badge a) (\<lambda>badge.
     and_then (history_source a) (\<lambda>source.
     and_then (history_addr a) (\<lambda>addr.
     template
       [lit (digits (i + 1) @ utf16 ''. ['' @ badge @ utf16 ''] '' @ addr @ source @ nl),
        lit (utf16 ''   Message: '' @ dq), history_clip a (utf16 ''message''), lit (dq @ nl),
        lit (utf16 ''   Lucille: '' @ dq), history_clip a (utf16 ''response''), lit (dq @ nl @ nl)])))"

text \<open>\<open>items.forEach((a, i) => ...)\<close>, from index \<open>i\<close> on.\<close>

fun history_items :: "nat \<Rightarrow> jsval list \<Rightarrow> exn + jsstring" where
  "history_items i [] = Inr []"
| "history_items i (a # as) =
     and_then (history_item i a) (\<lambda>t.
     and_then (history_items (Suc i) as) (\<lambda>rest. Inr (t @ rest)))"

fun history_groups :: "groups \<Rightarrow> exn + jsstring" where
  "history_groups [] = Inr []"
| "history_groups ((g, items) # gs) =
     and_then (history_items 0 items) (\<lambda>body.
     and_then (history_groups gs) (\<lambda>rest.
     Inr (utf16 ''--- '' @ g @ (utf16 '' ---'' @ nl) @ body @ rest)))"

definition history_text :: "jsnum option \<Rightarrow> jsstring option \<Rightarrow> jsval \<Rightarrow> exn + jsstring" where
  "history_text round player data =
     and_then (attempts_of data) (\<lambda>attempts.
     and_then (length_of attempts) (\<lambda>n.
       if n = Num (utf16 ''0'') then Inr (utf16 ''No attempts found for the given filters.'')
       else
         and_then (array_method (utf16 ''attempts'') (utf16 ''forEach'') attempts) (\<lambda>items.
         and_then (group_attempts items []) (\<lambda>grouped.
         and_then (history_header round player attempts) (\<lambda>header.
         and_then (history_groups grouped) (\<lambda>body.
         Inr (trim (header @ body))))))))"

definition lucille_history ::
  "runtime \<Rightarrow> jsnum \<Rightarrow> jsnum option \<Rightarrow> jsstring option \<Rightarrow> exn + tool_result" where
  "lucille_history rt limit round player =
     try_catch rt
       (and_then (history_query limit round player) (\<lambda>query.
        and_then (apiGet rt query) (\<lambda>data.
        and_then (history_text round player data) (\<lambda>text. Inr (textContent text)))))"

subsection \<open>Tool 6: leaderboard\<close>

definition rounds_of :: "jsval \<Rightarrow> exn + jsval" where
  "rounds_of data =
     (if isArray data then Inr data
      else and_then (get data (utf16 ''history'')) (\<lambda>h. Inr (or_else h (Arr []))))"

text \<open>\<open>${h.victory.winner?.slice(0, 10)}\<close>.\<close>

definition leaderboard_address :: "jsval \<Rightarrow> exn + jsstring" where
  "leaderboard_address victory =
     and_then (get victory (utf16 ''winner'')) (\<lambda>w.
       if w = Undefined \<or> w = Null then ToString Undefined
       else and_then (call_slice (utf16 ''h.victory.winner?'') w 0 (Some 10)) ToString)"

definition leaderboard_winner :: "jsval \<Rightarrow> exn + jsstring" where
  "leaderboard_winner h =
     and_then (get h (utf16 ''victory'')) (\<lambda>victory.
       if truthy victory
       then template
              [lit (trophy @ utf16 '' Won by ''), leaderboard_address victory,
               lit (utf16 '' (score: ''), field victory (utf16 ''score''),
               lit (utf16 '', jackpot: ''), field victory (utf16 ''jackpot''), lit (utf16 '' ETH)'')]
       else Inr (utf16 ''No winner yet''))"

definition leaderboard_line :: "nat \<Rightarrow> jsval \<Rightarrow> exn + jsstring" where
  "leaderboard_line i h =
     and_then (leaderboard_winner h) (\<lambda>winner.
     template
       [lit (utf16 ''Round ''),
        and_then (get h (utf16 ''round'')) (\<lambda>r. ToString (or_else r (Num (digits (i + 1))))),
        lit (utf16 '': '' @ dq), field h (utf16 ''name''), lit (dq @ utf16 '' ''),
        and_then (get h (utf16 ''emoji'')) (\<lambda>e. ToString (or_else e (Str []))),
        lit (utf16 '' '' @ emdash @ utf16 '' ''), lit winner])"

text \<open>\<open>history.map((h, i) => ...)\<close>, from index \<open>i\<close> on.\<close>

fun leaderboard_lines :: "nat \<Rightarrow> jsval list \<Rightarrow> exn + jsstring list" where
  "leaderboard_lines i [] = Inr []"
| "leaderboard_lines i (h # hs) =
     and_then (leaderboard_line i h) (\<lambda>t.
     and_then (leaderboard_lines (Suc i) hs) (\<lambda>rest. Inr (t # rest)))"

definition leaderboard_text :: "jsval \<Rightarrow> exn + jsstring" where
  "leaderboard_text data =
     and_then (rounds_of data) (\<lambda>history.
     and_then (array_method (utf16 ''history'') (utf16 ''map'') history) (\<lambda>rounds.
     and_then (leaderboard_lines 0 rounds) (\<lambda>lines.
     Inr ((utf16 ''Past rounds:'' @ nl) @ join nl lines))))"

definition lucille_leaderboard :: "runtime \<Rightarrow> exn + tool_result" where
  "lucille_leaderboard rt =
     try_catch rt
       (and_then (apiGet rt (utf16 ''/api/personality-history'')) (\<lambda>data.
        and_then (leaderboard_text data) (\<lambda>text. Inr (textContent text))))"

subsection \<open>Tool 7: my stats\<close>

text \<open>
  \<open>v?.length\<close>, and \<open>n > 0\<close> on what it yields. A number is greater than zero when it
  is neither zero nor \<open>NaN\<close> and prints without a minus sign; a string (or an object,
  through its string) is first read as a number, which is the runtime's to do.
\<close>

definition opt_length :: "jsval \<Rightarrow> exn + jsval" where
  "opt_length v = (if v = Undefined \<or> v = Null then Inr Undefined else length_of v)"

fun gt_zero :: "runtime \<Rightarrow> jsval \<Rightarrow> exn + bool" where
  "gt_zero rt Undefined = Inr False"
| "gt_zero rt Null = Inr False"
| "gt_zero rt (Bool b) = Inr b"
| "gt_zero rt (Num n) = Inr (truthy (Num n) \<and> \<not> prefix (utf16 ''-'') n)"
| "gt_zero rt (Str s) = Inr (string_gt_zero rt s)"
| "gt_zero rt v = and_then (ToString v) (\<lambda>s. Inr (string_gt_zero rt s))"

definition stats_nft :: "jsval \<Rightarrow> exn + jsstring" where
  "stats_nft nft =
     template
       [lit (utf16 ''  - Round ''), field nft (utf16 ''round''), lit (utf16 '': Score ''), field nft (utf16 ''score''),
        lit (utf16 '' (''), field nft (utf16 ''personality''), lit (utf16 '')''),
        and_then (get nft (utf16 ''opensea_url'')) (\<lambda>url.
          if truthy url
          then template [lit (utf16 '' '' @ emdash @ utf16 '' ''), field nft (utf16 ''opensea_url'')]
          else Inr []),
        lit nl]"

definition stats_attempt :: "jsval \<Rightarrow> exn + jsstring" where
  "stats_attempt a =
     template
       [lit (utf16 ''  - ''),
        and_then (get a (utf16 ''won'')) (\<lambda>won. Inr (if truthy won then trophy else cross)),
        lit (utf16 '' Score: ''), field a (utf16 ''score''),
        lit (utf16 '' '' @ emdash @ utf16 '' '' @ dq), field a (utf16 ''message_preview''),
        lit (utf16 ''...'' @ dq @ utf16 '' (''), field a (utf16 ''personality''), lit (utf16 '')'' @ nl)]"

text \<open>\<open>if (data.k?.length > 0) { result += title; data.k.forEach(...) }\<close>.\<close>

definition stats_section ::
  "runtime \<Rightarrow> jsval \<Rightarrow> jsstring \<Rightarrow> jsstring \<Rightarrow> (jsval \<Rightarrow> exn + jsstring) \<Rightarrow> exn + jsstring" where
  "stats_section rt data k title line =
     and_then (get data k) (\<lambda>xs.
     and_then (opt_length xs) (\<lambda>n.
     and_then (gt_zero rt n) (\<lambda>positive.
       if positive
       then template
              [lit title,
               and_then (array_method (utf16 ''data.'' @ k) (utf16 ''forEach'') xs) (\<lambda>items.
                 template (map line items))]
       else Inr [])))"

definition my_stats_text :: "runtime \<Rightarrow> jsstring \<Rightarrow> jsval \<Rightarrow> exn + jsstring" where
  "my_stats_text rt player data =
     template
       [lit (utf16 ''Player: '' @ player @ nl),
        lit (utf16 ''Total attempts: ''), field data (utf16 ''total_attempts''), lit nl,
        lit (utf16 ''Total wins: ''), field data (utf16 ''total_wins''), lit nl,
        lit (utf16 ''Best score: ''), field data (utf16 ''best_score''), lit nl,
        lit (utf16 ''Average score: ''), field data (utf16 ''average_score''), lit nl,
        stats_section rt data (utf16 ''nfts'') (nl @ utf16 ''NFTs earned:'' @ nl) stats_nft,
        stats_section rt data (utf16 ''recent_attempts'') (nl @ utf16 ''Recent attempts:'' @ nl) stats_attempt]"

definition lucille_my_stats :: "runtime \<Rightarrow> jsstring \<Rightarrow> exn + tool_result" where
  "lucille_my_stats rt player =
     try_catch rt
       (and_then (apiGet rt (utf16 ''/api/agent/stats?player='' @ player)) (\<lambda>data.
        and_then (my_stats_text rt player data) (\<lambda>text. Inr (textContent text))))"

subsection \<open>Tool 8: round strategy\<close>

definition strategy_advice :: "jsval \<Rightarrow> exn + jsstring" where
  "strategy_advice data =
     and_then (get data (utf16 ''advice'')) (\<lambda>advice.
     and_then (opt_length advice) (\<lambda>n.
       if truthy n
       then template
              [lit (nl @ utf16 ''Advice:'' @ nl),
               and_then (array_method (utf16 ''data.advice'') (utf16 ''forEach'') advice) (\<lambda>tips.
                 template
                   (map (\<lambda>tip. template [lit (utf16 ''  '' @ bulb @ utf16 '' ''), ToString tip, lit nl])
                      tips))]
       else Inr []))"

definition strategy_text :: "jsval \<Rightarrow> exn + jsstring" where
  "strategy_text data =
     template
       [lit (utf16 ''=== Strategy for Round ''), field data (utf16 ''round''), lit (utf16 '' ==='' @ nl @ nl),
        lit (utf16 ''Turn: ''), field data (utf16 ''turn''), lit (utf16 '' | Phase: ''), field data (utf16 ''phase''),
        lit (utf16 '' | Threshold: ''), field data (utf16 ''threshold''), lit (utf16 ''%'' @ nl),
        lit (utf16 ''Jackpot: ''), field data (utf16 ''jackpot''), lit (utf16 '' ETH'' @ nl @ nl),
        lit (utf16 ''Personality: '' @ dq), opt_field data (utf16 ''personality'') (utf16 ''name''),
        lit (dq @ utf16 '' (''), opt_field data (utf16 ''personality'') (utf16 ''mood''), lit (utf16 '')'' @ nl),
        strategy_advice data,
        lit (nl @ utf16 ''Cost: ''), opt_field data (utf16 ''cost_info'') (utf16 ''cost_per_play''),
        lit (utf16 '' (''), opt_field data (utf16 ''cost_info'') (utf16 ''network''), lit (utf16 '')'' @ nl)]"

definition lucille_round_strategy :: "runtime \<Rightarrow> exn + tool_result" where
  "lucille_round_strategy rt =
     try_catch rt
       (and_then (apiGet rt (utf16 ''/api/agent/strategy'')) (\<lambda>data.
        and_then (strategy_text data) (\<lambda>text. Inr (textContent text))))"

subsection \<open>Tool 9: verify wallet\<close>

text \<open>
  The regular expressions of the source are sequences of atoms with exact repetition
  counts, anchored at both ends: an atom is one character or a class of character
  ranges. Without the \<open>m\<close> flag, \<open>^\<close> is the start and \<open>$\<close> the end of the input.
\<close>

datatype atom = Chr nat | Ranges "(nat \<times> nat) list"

fun atom_matches :: "atom \<Rightarrow> nat \<Rightarrow> bool" where
  "atom_matches (Chr c) x = (x = c)"
| "atom_matches (Ranges rs) x = list_ex (\<lambda>r. fst r \<le> x \<and> x \<le> snd r) rs"

text \<open>What is left of the input after \<open>n\<close> matches of the atom, if it matches.\<close>

fun match_times :: "atom \<Rightarrow> nat \<Rightarrow> jsstring \<Rightarrow> jsstring option" where
  "match_times a 0 s = Some s"
| "match_times a (Suc n) [] = None"
| "match_times a (Suc n) (x # xs) = (if atom_matches a x then match_times a n xs else None)"

fun match_sequence :: "(atom \<times> nat) list \<Rightarrow> jsstring \<Rightarrow> jsstring option" where
  "match_sequence [] s = Some s"
| "match_sequence ((a, n) # ps) s =
     (case match_times a n s of None \<Rightarrow> None | Some rest \<Rightarrow> match_sequence ps rest)"

definition regex_test :: "(atom \<times> nat) list \<Rightarrow> jsstring \<Rightarrow> bool" where
  "regex_test pattern s = (match_sequence pattern s = Some [])"

text \<open>\<open>/^0x[a-fA-F0-9]{40}$/\<close>\<close>

definition address_pattern :: "(atom \<times> nat) list" where
  "address_pattern =
     [(Chr (of_char CHR ''0''), 1),
      (Chr (of_char CHR ''x''), 1),
      (Ranges [(of_char CHR ''a'', of_char CHR ''f''),
               (of_char CHR ''A'', of_char CHR ''F''),
               (of_char CHR ''0'', of_char CHR ''9'')], 40)]"

definition invalid_address :: "jsstring \<Rightarrow> jsstring" where
  "invalid_address address =
     (cross @ utf16 '' Invalid wallet address: '' @ dq) @ address
        @ (dq @ nl
       @ utf16 ''Must be a 42-character hex address starting with 0x (e.g. 0x1234...abcd)'')"

definition valid_address :: "jsstring \<Rightarrow> jsstring" where
  "valid_address address =
     (check @ utf16 '' Valid Base wallet address: '') @ address
        @ (nl
       @ utf16 ''You can use this address to play. If you win, ETH and NFTs will be sent here.''
       @ nl @ utf16 ''Network: Base Sepolia (testnet)'' @ nl
       @ utf16 ''Need testnet ETH? Use lucille_claim_eth to get some.'')"

definition lucille_verify_wallet :: "jsstring \<Rightarrow> exn + tool_result" where
  "lucille_verify_wallet address =
     (if \<not> regex_test address_pattern address
      then Inr (textContent (invalid_address address))
      else Inr (textContent (valid_address address)))"

subsection \<open>Tool 10: claim ETH\<close>

text \<open>The four messages, as functions of what the source interpolates.\<close>

definition already_funded :: "jsstring \<Rightarrow> jsstring" where
  "already_funded balance =
     (check @ utf16 '' You already have enough ETH ('') @ balance
       @ (utf16 '' ETH). No drip needed.'' @ nl @ utf16 ''You're ready to play '' @ emdash
       @ utf16 '' use lucille_contract_info to get the contract details.'')"

definition cooldown_active :: "jsstring \<Rightarrow> jsstring" where
  "cooldown_active message =
     (hourglass @ utf16 '' Cooldown active. '') @ message @ utf16 ''. You can claim again later.''"

definition claimed_eth :: "jsstring \<Rightarrow> jsstring \<Rightarrow> jsstring \<Rightarrow> jsstring" where
  "claimed_eth amount address txHash =
     (check @ utf16 '' Sent '') @ amount @ utf16 '' ETH to '' @ address @ (nl @ utf16 ''TX: '') @ txHash
       @ (nl
       @ utf16 ''You're ready to play! Use lucille_contract_info to get contract details, then sign submitAttempt() on-chain.'')"

definition echoed :: "jsstring \<Rightarrow> jsstring" where
  "echoed json = utf16 ''Result: '' @ json"

definition claim_eth_text :: "jsstring \<Rightarrow> jsval \<Rightarrow> exn + jsstring" where
  "claim_eth_text address data =
     and_then (get data (utf16 ''status'')) (\<lambda>status.
       if status = Str (utf16 ''has_balance'')
       then and_then (field data (utf16 ''balance'')) (\<lambda>balance. Inr (already_funded balance))
       else if status = Str (utf16 ''cooldown'')
       then and_then (field data (utf16 ''message'')) (\<lambda>message. Inr (cooldown_active message))
       else if status = Str (utf16 ''claimed'')
       then and_then (field data (utf16 ''amount'')) (\<lambda>amount.
            and_then (field data (utf16 ''txHash'')) (\<lambda>txHash.
            Inr (claimed_eth amount address txHash)))
       else Inr (echoed (stringify_text (JSON_stringify data))))"

definition lucille_claim_eth :: "runtime \<Rightarrow> jsstring \<Rightarrow> exn + tool_result" where
  "lucille_claim_eth rt address =
     try_catch rt
       (and_then (apiPost rt (utf16 ''/api/drip'') (Obj [(utf16 ''address'', Str address)])) (\<lambda>data.
        and_then (claim_eth_text address data) (\<lambda>text. Inr (textContent text))))"

subsection \<open>Tool 11: contract info\<close>

definition contractAddress :: jsstring where
  "contractAddress = (utf16 ''0xbBaBb6ced6A179A79D34Dbc4918028a9CaFbD8F8'')"

definition chainId :: nat where
  "chainId = 84532"

definition rpcUrl :: jsstring where
  "rpcUrl = (utf16 ''https://sepolia.base.org'')"

definition abi_io :: "string \<Rightarrow> string \<Rightarrow> jsval" where
  "abi_io name ty = Obj [(utf16 ''name'', Str (utf16 name)), (utf16 ''type'', Str (utf16 ty))]"

definition abi_function :: "string \<Rightarrow> string \<Rightarrow> jsval list \<Rightarrow> jsval list \<Rightarrow> jsval" where
  "abi_function name mutability inputs outputs =
     Obj [(utf16 ''name'', Str (utf16 name)),
          (utf16 ''type'', Str (utf16 ''function'')),
          (utf16 ''stateMutability'', Str (utf16 mutability)),
          (utf16 ''inputs'', Arr inputs),
          (utf16 ''outputs'', Arr outputs)]"

definition abi :: jsval where
  "abi =
     Arr [abi_function ''submitAttempt'' ''payable''
            [abi_io ''_messageHash'' ''bytes32''] [abi_io ''turn'' ''uint256''],
          abi_function ''getRoundState'' ''view'' []
            [abi_io ''_roundId'' ''uint256'', abi_io ''_currentTurn'' ''uint256'',
             abi_io ''_pendingAttempts'' ''uint256'', abi_io ''_jackpot'' ''uint256'',
             abi_io ''_currentCost'' ''uint256'', abi_io ''_active'' ''bool''],
          abi_function ''getCurrentCost'' ''view'' [] [abi_io '''' ''uint256'']]"

definition contract_head :: jsstring where
  "contract_head =
     (utf16 ''=== Lucille Protocol '' @ emdash @ utf16 '' Contract Info ==='' @ nl @ nl)
       @ utf16 ''Contract: '' @ contractAddress @ nl
       @ utf16 ''Chain: Base Sepolia ('' @ digits chainId @ (utf16 '')'' @ nl)
       @ utf16 ''RPC: '' @ rpcUrl @ nl
       @ utf16 ''Current cost per attempt: ''"

definition contract_tail :: jsstring where
  "contract_tail =
     (utf16 '' wei'' @ nl @ nl)
       @ (utf16 ''=== How to Play On-Chain ==='' @ nl @ nl)
       @ (utf16 ''1. Hash your message: keccak256(toBytes('' @ dq @ utf16 ''your message''
       @ dq @ utf16 ''))'' @ nl)
       @ (utf16 ''2. Call submitAttempt(messageHash) with value = currentCost'' @ nl)
       @ (utf16 ''3. After tx confirms, call lucille_play with your message + tx_hash'' @ nl
       @ nl)
       @ (utf16 ''=== ABI (only what you need) ==='' @ nl @ nl)
       @ (utf16 ''submitAttempt(bytes32 _messageHash) payable '' @ arrow
       @ utf16 '' returns uint256 turn'' @ nl)
       @ (utf16 ''getRoundState() view '' @ arrow
       @ utf16 '' returns (uint256 roundId, uint256 currentTurn, uint256 pendingAttempts, uint256 jackpot, uint256 currentCost, bool active)''
       @ nl)
       @ (utf16 ''getCurrentCost() view '' @ arrow @ utf16 '' returns uint256'' @ nl)
       @ (utf16 ''getPlayerStats(address) view '' @ arrow
       @ utf16 '' returns (uint256 attemptCount, uint256 wins)'' @ nl @ nl)
       @ (utf16 ''=== ABI JSON (for ethers.js / viem) ==='' @ nl @ nl)
       @ stringify_text (JSON_stringify abi) @ (nl @ nl)
       @ (utf16 ''=== Example (ethers.js v6) ==='' @ nl @ nl)
       @ (utf16 ''import { ethers } from '' @ dq @ utf16 ''ethers'' @ dq @ utf16 '';'' @ nl)
       @ (utf16 ''const provider = new ethers.JsonRpcProvider('' @ dq) @ rpcUrl @ (dq @ utf16 '');'' @ nl)
       @ (utf16 ''const wallet = new ethers.Wallet(PRIVATE_KEY, provider);'' @ nl)
       @ (utf16 ''const contract = new ethers.Contract('' @ dq) @ contractAddress @ (dq @ utf16 '', ABI, wallet);'' @ nl)
       @ (utf16 ''const messageHash = ethers.keccak256(ethers.toUtf8Bytes('' @ dq
       @ utf16 ''your message'' @ dq @ utf16 ''));'' @ nl)
       @ (utf16 ''const cost = await contract.getCurrentCost();'' @ nl)
       @ (utf16 ''const tx = await contract.submitAttempt(messageHash, { value: cost });''
       @ nl)
       @ (utf16 ''await tx.wait();'' @ nl @ nl)
       @ (utf16 ''=== Example (viem) ==='' @ nl @ nl)
       @ (utf16 ''import { keccak256, toBytes } from '' @ dq @ utf16 ''viem'' @ dq
       @ utf16 '';'' @ nl)
       @ (utf16 ''const messageHash = keccak256(toBytes('' @ dq @ utf16 ''your message'' @ dq
       @ utf16 ''));'' @ nl)
       @ (utf16 ''// Use your wallet client to call submitAttempt(messageHash) with value: currentCost''
       @ nl)"

definition contract_info_text :: "jsval \<Rightarrow> exn + jsstring" where
  "contract_info_text data =
     and_then (get data (utf16 ''baseCost'')) (\<lambda>b.
     and_then (get data (utf16 ''currentCost'')) (\<lambda>c.
       let baseCost = or_else b (Str (utf16 ''1''));
           currentCost = or_else c baseCost
       in template [lit contract_head, ToString currentCost, lit contract_tail]))"

definition lucille_contract_info :: "runtime \<Rightarrow> exn + tool_result" where
  "lucille_contract_info rt =
     try_catch rt
       (and_then (apiGet rt (utf16 ''/api/game-state'')) (\<lambda>data.
        and_then (contract_info_text data) (\<lambda>text. Inr (textContent text))))"

section \<open>The registered tools\<close>

datatype tool_call =
    Rules
  | Status
  | Personality
  | Play jsstring jsstring "jsstring option" "jsstring option"
  | History jsnum "jsnum option" "jsstring option"
  | Leaderboard
  | My_stats jsstring
  | Round_strategy
  | Verify_wallet jsstring
  | Claim_eth jsstring
  | Contract_info

fun call_tool :: "runtime \<Rightarrow> tool_call \<Rightarrow> exn + tool_result" where
  "call_tool rt Rules = lucille_rules"
| "call_tool rt Status = lucille_status rt"
| "call_tool rt Personality = lucille_personality rt"
| "call_tool rt (Play message player tx_hash agent_name) =
     lucille_play rt message player tx_hash agent_name"
| "call_tool rt (History limit round player) = lucille_history rt limit round player"
| "call_tool rt Leaderboard = lucille_leaderboard rt"
| "call_tool rt (My_stats player) = lucille_my_stats rt player"
| "call_tool rt Round_strategy = lucille_round_strategy rt"
| "call_tool rt (Verify_wallet address) = lucille_verify_wallet address"
| "call_tool rt (Claim_eth address) = lucille_claim_eth rt address"
| "call_tool rt Contract_info = lucille_contract_info rt"

section \<open>The specification's words\<close>

text \<open>
  An address, as the specification describes it: the two-character prefix \<open>0x\<close>, then 40
  hexadecimal digits of either case, and nothing else.
\<close>

definition is_hex_digit :: "nat \<Rightarrow> bool" where
  "is_hex_digit c =
     ((of_char CHR ''0'' \<le> c \<and> c \<le> of_char CHR ''9'')
      \<or> (of_char CHR ''a'' \<le> c \<and> c \<le> of_char CHR ''f'')
      \<or> (of_char CHR ''A'' \<le> c \<and> c \<le> of_char CHR ''F''))"

definition address_shape :: "jsstring \<Rightarrow> bool" where
  "address_shape s =
     (length s = 42 \<and> take 2 s = (utf16 ''0x'') \<and> list_all is_hex_digit (drop 2 s))"

text \<open>
  Grouping, as the specification describes it: the keys in the order in which they are
  first seen, each with the attempts that have this key, in their order.
\<close>

primrec first_seen :: "'a list \<Rightarrow> 'a list" where
  "first_seen [] = []"
| "first_seen (k # ks) = k # removeAll k (first_seen ks)"

definition grouped_by_key :: "(jsstring \<times> 'a) list \<Rightarrow> (jsstring \<times> 'a list) list" where
  "grouped_by_key kas =
     map (\<lambda>k. (k, map snd (filter (\<lambda>ka. fst ka = k) kas))) (first_seen (map fst kas))"

text \<open>
  The entries of a group, each after its 1-based index, and the groups one after the
  other, each under its title.
\<close>

definition numbered :: "jsstring list \<Rightarrow> jsstring" where
  "numbered es = concat (map (\<lambda>(i, e). digits (i + 1) @ utf16 ''. ['' @ e) (enumerate 0 es))"

definition grouped_text :: "(jsstring \<times> jsstring) list \<Rightarrow> jsstring" where
  "grouped_text kes =
     concat (map (\<lambda>(k, es). utf16 ''--- '' @ k @ utf16 '' ---'' @ nl @ numbered es)
       (grouped_by_key kes))"

text \<open>
  An attempt, as the specification reads it: a value with fields, of which the
  personality, the round and the score are primitive values (a string, a number, a
  boolean, \<open>null\<close>, or absent) and the player, the message and the response are strings
  or falsy (absent, \<open>null\<close>, \<open>false\<close>, 0).
\<close>

definition attr :: "jsval \<Rightarrow> jsstring \<Rightarrow> jsval" where
  "attr a k = (case get a k of Inl e \<Rightarrow> Undefined | Inr v \<Rightarrow> v)"

fun primitive :: "jsval \<Rightarrow> bool" where
  "primitive (Arr xs) = False"
| "primitive (Obj kvs) = False"
| "primitive v = True"

fun text_or_falsy :: "jsval \<Rightarrow> bool" where
  "text_or_falsy (Str s) = True"
| "text_or_falsy v = (\<not> truthy v)"

definition plain_attempt :: "jsval \<Rightarrow> bool" where
  "plain_attempt a =
     (a \<noteq> Undefined \<and> a \<noteq> Null
      \<and> primitive (attr a (utf16 ''personality'')) \<and> primitive (attr a (utf16 ''round''))
      \<and> primitive (attr a (utf16 ''score''))
      \<and> text_or_falsy (attr a (utf16 ''player'')) \<and> text_or_falsy (attr a (utf16 ''message''))
      \<and> text_or_falsy (attr a (utf16 ''response'')))"

text \<open>
  What the specification says of such an attempt: its key
  \<open>{personality} (Round {round})\<close> (with the words of the source for a falsy personality
  or round), and its entry: the badge, the address as \<open>first6...last4\<close>, the mark of an
  agent, then the message and the response, each cut to 200 characters.
\<close>

fun prim_text :: "jsval \<Rightarrow> jsstring" where
  "prim_text Undefined = utf16 ''undefined''"
| "prim_text Null = utf16 ''null''"
| "prim_text (Bool b) = (if b then utf16 ''true'' else utf16 ''false'')"
| "prim_text (Num n) = n"
| "prim_text (Str s) = s"
| "prim_text v = []"

definition key_text :: "jsval \<Rightarrow> jsstring" where
  "key_text a =
     (if truthy (attr a (utf16 ''personality'')) then prim_text (attr a (utf16 ''personality''))
      else utf16 ''Unknown'')
       @ utf16 '' (Round ''
       @ (if truthy (attr a (utf16 ''round'')) then prim_text (attr a (utf16 ''round''))
          else utf16 ''?'')
       @ utf16 '')''"

fun short_address :: "jsval \<Rightarrow> jsstring" where
  "short_address (Str p) =
     (if p = [] then utf16 ''???'' else take 6 p @ utf16 ''...'' @ drop (length p - 4) p)"
| "short_address v = utf16 ''???''"

fun cut_200 :: "jsval \<Rightarrow> jsstring" where
  "cut_200 (Str s) = take 200 s"
| "cut_200 v = []"

definition entry_text :: "jsval \<Rightarrow> jsstring" where
  "entry_text a =
     (if truthy (attr a (utf16 ''won'')) then trophy @ utf16 '' WIN''
      else utf16 ''Score: '' @ prim_text (attr a (utf16 ''score'')))
       @ utf16 ''] '' @ short_address (attr a (utf16 ''player''))
       @ (if attr a (utf16 ''source'') = Str (utf16 ''agent'') then utf16 '' '' @ robot else [])
       @ nl
       @ utf16 ''   Message: '' @ dq @ cut_200 (attr a (utf16 ''message'')) @ dq @ nl
       @ utf16 ''   Lucille: '' @ dq @ cut_200 (attr a (utf16 ''response'')) @ dq @ nl @ nl"

text \<open>The header: for a round, for a player, or for the recent attempts.\<close>

definition header_text :: "jsnum option \<Rightarrow> jsstring option \<Rightarrow> nat \<Rightarrow> jsstring" where
  "header_text round player n =
     (if truthy (opt_num round)
      then utf16 ''=== Attempts for Round '' @ prim_text (opt_num round) @ utf16 '' ==='' @ nl @ nl
      else if truthy (opt_str player)
      then utf16 ''=== Attempts by '' @ take 10 (prim_text (opt_str player)) @ utf16 ''... ===''
             @ nl @ nl
      else utf16 ''=== Recent '' @ digits n @ utf16 '' Attempts ==='' @ nl @ nl)"

section \<open>Sample inputs\<close>

text \<open>
  Response bodies for the examples, what \<open>JSON.parse\<close> returns on each of them (on any
  other text this table answers with a syntax error), and a runtime whose upstream
  answers every request with one status and body.
\<close>

definition retry_5_body :: jsstring where
  "retry_5_body = (utf16 ''{'' @ dq @ utf16 ''retry_after_seconds'' @ dq @ utf16 '':5}'')"

definition retry_0_body :: jsstring where
  "retry_0_body = (utf16 ''{'' @ dq @ utf16 ''retry_after_seconds'' @ dq @ utf16 '':0}'')"

definition retry_big_body :: jsstring where
  "retry_big_body = (utf16 ''{'' @ dq @ utf16 ''retry_after_seconds'' @ dq @ utf16 '':1e21}'')"

definition pending_body :: jsstring where
  "pending_body =
     (utf16 ''{'' @ dq @ utf16 ''status'' @ dq @ utf16 '':'' @ dq @ utf16 ''pending'' @ dq
       @ utf16 '','' @ dq @ utf16 ''eta'' @ dq @ utf16 '':1.5}'')"

definition rounds_body :: jsstring where
  "rounds_body =
     (utf16 ''[{'' @ dq @ utf16 ''name'' @ dq @ utf16 '':'' @ dq @ utf16 ''Vex'' @ dq
       @ utf16 '','' @ dq @ utf16 ''victory'' @ dq @ utf16 '':{'' @ dq @ utf16 ''winner'' @ dq
       @ utf16 '':'' @ dq @ utf16 ''0x1234567890abcdef1234567890abcdef12345678'' @ dq
       @ utf16 '','' @ dq @ utf16 ''score'' @ dq @ utf16 '':97,'' @ dq @ utf16 ''jackpot'' @ dq
       @ utf16 '':'' @ dq @ utf16 ''0.05'' @ dq @ utf16 ''}},{'' @ dq @ utf16 ''name'' @ dq
       @ utf16 '':'' @ dq @ utf16 ''Ada'' @ dq @ utf16 ''}]'')"

definition player_body :: jsstring where
  "player_body =
     (utf16 ''[{'' @ dq @ utf16 ''player'' @ dq @ utf16 '':'' @ dq
       @ utf16 ''0x1234567890abcdef1234567890abcdef12345678'' @ dq
       @ utf16 '','' @ dq @ utf16 ''score'' @ dq @ utf16 '':42}]'')"

definition null_body :: jsstring where
  "null_body = utf16 ''null''"

definition empty_object_body :: jsstring where
  "empty_object_body = utf16 ''{}''"

definition base_cost_0_body :: jsstring where
  "base_cost_0_body = (utf16 ''{'' @ dq @ utf16 ''baseCost'' @ dq @ utf16 '':0}'')"

definition base_cost_5_body :: jsstring where
  "base_cost_5_body = (utf16 ''{'' @ dq @ utf16 ''baseCost'' @ dq @ utf16 '':'' @ dq @ utf16 ''5'' @ dq
       @ utf16 ''}'')"

definition claimed_body :: jsstring where
  "claimed_body = (utf16 ''{'' @ dq @ utf16 ''status'' @ dq @ utf16 '':'' @ dq @ utf16 ''claimed'' @ dq
       @ utf16 '','' @ dq @ utf16 ''amount'' @ dq @ utf16 '':'' @ dq
       @ utf16 ''0.001'' @ dq @ utf16 '','' @ dq @ utf16 ''txHash'' @ dq
       @ utf16 '':'' @ dq @ utf16 ''0xabc'' @ dq @ utf16 ''}'')"

definition attempts_body :: jsstring where
  "attempts_body =
     (utf16 ''[{'' @ dq @ utf16 ''personality'' @ dq @ utf16 '':'' @ dq @ utf16 ''A'' @ dq
       @ utf16 '','' @ dq @ utf16 ''round'' @ dq @ utf16 '':1},{'' @ dq
       @ utf16 ''personality'' @ dq @ utf16 '':'' @ dq @ utf16 ''B'' @ dq
       @ utf16 '','' @ dq @ utf16 ''round'' @ dq @ utf16 '':2},{'' @ dq
       @ utf16 ''personality'' @ dq @ utf16 '':'' @ dq @ utf16 ''A'' @ dq
       @ utf16 '','' @ dq @ utf16 ''round'' @ dq @ utf16 '':1}]'')"

definition attempt_A :: jsval where
  "attempt_A = Obj [(utf16 ''personality'', Str (utf16 ''A'')), (utf16 ''round'', Num (utf16 ''1''))]"

definition attempt_B :: jsval where
  "attempt_B = Obj [(utf16 ''personality'', Str (utf16 ''B'')), (utf16 ''round'', Num (utf16 ''2''))]"

definition sample_address :: jsstring where
  "sample_address = utf16 ''0x1234567890abcdef1234567890abcdef12345678''"

definition sample_round :: jsval where
  "sample_round =
     Obj [(utf16 ''name'', Str (utf16 ''Vex'')),
          (utf16 ''victory'',
             Obj [(utf16 ''winner'', Str sample_address), (utf16 ''score'', Num (utf16 ''97'')),
                  (utf16 ''jackpot'', Str (utf16 ''0.05''))])]"

definition open_round :: jsval where
  "open_round = Obj [(utf16 ''name'', Str (utf16 ''Ada''))]"

definition player_attempt :: jsval where
  "player_attempt = Obj [(utf16 ''player'', Str sample_address), (utf16 ''score'', Num (utf16 ''42''))]"

definition sample_parse :: "jsstring \<Rightarrow> exn + jsval" where
  "sample_parse s =
     (if s = retry_5_body then Inr (Obj [(utf16 ''retry_after_seconds'', Num (utf16 ''5''))])
      else if s = retry_0_body then Inr (Obj [(utf16 ''retry_after_seconds'', Num (utf16 ''0''))])
      else if s = retry_big_body
      then Inr (Obj [(utf16 ''retry_after_seconds'', Num (utf16 ''1e+21''))])
      else if s = pending_body
      then Inr (Obj [(utf16 ''status'', Str (utf16 ''pending'')), (utf16 ''eta'', Num (utf16 ''1.5''))])
      else if s = rounds_body then Inr (Arr [sample_round, open_round])
      else if s = player_body then Inr (Arr [player_attempt])
      else if s = null_body then Inr Null
      else if s = empty_object_body then Inr (Obj [])
      else if s = base_cost_0_body then Inr (Obj [(utf16 ''baseCost'', Num (utf16 ''0''))])
      else if s = base_cost_5_body then Inr (Obj [(utf16 ''baseCost'', Str (utf16 ''5''))])
      else if s = claimed_body
      then Inr (Obj [(utf16 ''status'', Str (utf16 ''claimed'')), (utf16 ''amount'', Str (utf16 ''0.001'')),
                     (utf16 ''txHash'', Str (utf16 ''0xabc''))])
      else if s = attempts_body then Inr (Arr [attempt_A, attempt_B, attempt_A])
      else Inl (Error (utf16 ''Unexpected end of JSON input'')))"

definition sample_runtime :: "nat \<Rightarrow> jsstring \<Rightarrow> runtime" where
  "sample_runtime status body =
     \<lparr>JSON_parse = sample_parse,
      fetch = (\<lambda>request. Inr (Response status (Inr body))),
      LUCILLE_API_URL = None,
      string_gt_zero = (\<lambda>s. s = utf16 ''1'')\<rparr>"

text \<open>The message of the \<open>TypeError\<close> for reading \<open>status\<close> from \<open>null\<close>.\<close>

definition null_status_text :: jsstring where
  "null_status_text =
     utf16 ''Cannot read properties of null (reading '' @ apos @ utf16 ''status'' @ apos @ utf16 '')''"


definition attempt_round_0 :: jsval where
  "attempt_round_0 = Obj [(utf16 ''personality'', Str (utf16 ''A'')), (utf16 ''round'', Num (utf16 ''0''))]"



definition three_attempts_text :: jsstring where
  "three_attempts_text =
     utf16 ''=== Recent 3 Attempts ==='' @ nl @ nl
       @ utf16 ''--- A (Round 1) ---'' @ nl
       @ utf16 ''1. [Score: undefined] ???'' @ nl
       @ utf16 ''   Message: '' @ dq @ dq @ nl
       @ utf16 ''   Lucille: '' @ dq @ dq @ nl @ nl
       @ utf16 ''2. [Score: undefined] ???'' @ nl
       @ utf16 ''   Message: '' @ dq @ dq @ nl
       @ utf16 ''   Lucille: '' @ dq @ dq @ nl @ nl
       @ utf16 ''--- B (Round 2) ---'' @ nl
       @ utf16 ''1. [Score: undefined] ???'' @ nl
       @ utf16 ''   Message: '' @ dq @ dq @ nl
       @ utf16 ''   Lucille: '' @ dq @ dq"

definition round_0_text :: jsstring where
  "round_0_text =
     utf16 ''=== Recent 1 Attempts ==='' @ nl @ nl
       @ utf16 ''--- A (Round ?) ---'' @ nl
       @ utf16 ''1. [Score: undefined] ???'' @ nl
       @ utf16 ''   Message: '' @ dq @ dq @ nl
       @ utf16 ''   Lucille: '' @ dq @ dq"

section \<open>Basic facts\<close>

lemma utf16_eq_iff [simp]: "utf16 a = utf16 b \<longleftrightarrow> a = b"
  unfolding utf16_def by (simp add: inj_map_eq_map inj_of_char)

lemma utf16_eq_Nil [simp]: "utf16 s = [] \<longleftrightarrow> s = []"
  by (simp add: utf16_def)

lemma length_utf16 [simp]: "length (utf16 s) = length s"
  by (simp add: utf16_def)

lemma utf16_merge:
  "utf16 a @ utf16 b = utf16 (a @ b)"
  "utf16 a @ utf16 b @ r = utf16 (a @ b) @ r"
  by (simp_all add: utf16_def)

lemma hd_utf16: "hd (utf16 (c # cs)) = of_char c"
  by (simp add: utf16_def)

lemma small_numbers:
  "digits (Suc 0) = utf16 ''1''"
  "digits (Suc (Suc 0)) = utf16 ''2''"
  "digits (Suc (Suc (Suc 0))) = utf16 ''3''"
  "digits 1 = utf16 ''1''"
  "digits 2 = utf16 ''2''"
  "digits 3 = utf16 ''3''"
  "digits 20 = utf16 ''20''"
  by (simp_all add: digits.simps utf16_def)

lemma and_then_Inl [simp]: "and_then (Inl e) f = Inl e"
  by (simp add: and_then_def)

lemma and_then_Inr [simp]: "and_then (Inr v) f = f v"
  by (simp add: and_then_def)

lemma and_then_eq_Inr: "and_then m f = Inr r \<longleftrightarrow> (\<exists>v. m = Inr v \<and> f v = Inr r)"
  by (cases m) simp_all

lemma str_includes_iff: "str_includes s t \<longleftrightarrow> sublist t s"
  by (induction s) (simp_all add: sublist_Cons_right)

lemma str_includes_middle: "str_includes (p @ t @ q) t"
  by (simp add: str_includes_iff)

subsection \<open>The sample runtime\<close>

lemmas sample_bodies =
  retry_5_body_def retry_0_body_def retry_big_body_def pending_body_def rounds_body_def
  player_body_def null_body_def empty_object_body_def base_cost_0_body_def
  base_cost_5_body_def claimed_body_def attempts_body_def utf16_def dq_def

lemma sample_parse_retry_5:
  "sample_parse retry_5_body = Inr (Obj [(utf16 ''retry_after_seconds'', Num (utf16 ''5''))])"
  by (simp add: sample_parse_def)

lemma sample_parse_retry_0:
  "sample_parse retry_0_body = Inr (Obj [(utf16 ''retry_after_seconds'', Num (utf16 ''0''))])"
  by (simp add: sample_parse_def) (simp add: sample_bodies)

lemma sample_parse_retry_big:
  "sample_parse retry_big_body = Inr (Obj [(utf16 ''retry_after_seconds'', Num (utf16 ''1e+21''))])"
  by (simp add: sample_parse_def) (simp add: sample_bodies)

lemma sample_parse_pending:
  "sample_parse pending_body =
     Inr (Obj [(utf16 ''status'', Str (utf16 ''pending'')), (utf16 ''eta'', Num (utf16 ''1.5''))])"
  by (simp add: sample_parse_def) (simp add: sample_bodies)



lemma sample_parse_null: "sample_parse null_body = Inr Null"
  by (simp add: sample_parse_def) (simp add: sample_bodies)

lemma sample_parse_empty_object: "sample_parse empty_object_body = Inr (Obj [])"
  by (simp add: sample_parse_def) (simp add: sample_bodies)

lemma sample_parse_base_cost_0:
  "sample_parse base_cost_0_body = Inr (Obj [(utf16 ''baseCost'', Num (utf16 ''0''))])"
  by (simp add: sample_parse_def) (simp add: sample_bodies)

lemma sample_parse_base_cost_5:
  "sample_parse base_cost_5_body = Inr (Obj [(utf16 ''baseCost'', Str (utf16 ''5''))])"
  by (simp add: sample_parse_def) (simp add: sample_bodies)

lemma sample_parse_claimed:
  "sample_parse claimed_body =
     Inr (Obj [(utf16 ''status'', Str (utf16 ''claimed'')), (utf16 ''amount'', Str (utf16 ''0.001'')),
               (utf16 ''txHash'', Str (utf16 ''0xabc''))])"
  by (simp add: sample_parse_def) (simp add: sample_bodies)

lemma sample_parse_attempts:
  "sample_parse attempts_body = Inr (Arr [attempt_A, attempt_B, attempt_A])"
  by (simp add: sample_parse_def) (simp add: sample_bodies)

lemma sample_runtime_parse: "JSON_parse (sample_runtime status body) = sample_parse"
  by (simp add: sample_runtime_def)

lemma sample_apiGet: "apiGet (sample_runtime 200 body) path = sample_parse body"
  by (simp add: apiGet_def respond_def res_ok_def res_json_def sample_runtime_def)

lemma sample_apiPost: "apiPost (sample_runtime 200 body) path request = sample_parse body"
  by (simp add: apiPost_def respond_def res_ok_def res_json_def sample_runtime_def)

lemma sample_apiGet_429: "apiGet (sample_runtime 429 body) path = Inl (ApiError 429 body)"
  by (simp add: apiGet_def respond_def res_ok_def sample_runtime_def)

section \<open>Failures end in a text result\<close>

text \<open>The failures of a call: a rejected \<open>fetch\<close> is passed on, a status outside
  200..299 becomes an \<open>ApiError\<close>, and the handler gives either to the classifier.\<close>

lemma respond_rejected: "respond rt (Inl e) = Inl e"
  by (simp add: respond_def)

lemma respond_not_ok:
  "\<not> res_ok res \<Longrightarrow> \<exists>body. respond rt (Inr res) = Inl (ApiError (res_status res) body)"
  by (simp add: respond_def)

lemma try_catch_failure: "try_catch rt (and_then (Inl err) f) = errorContent rt err"
  by (simp add: try_catch_def)

lemma errorContent_text: "\<exists>t. errorContent rt err = Inr (textContent t)"
proof (cases err)
  case (ApiError status body)
  then show ?thesis
    by (auto simp: errorContent_def and_then_eq_Inr split: sum.splits)
next
  case (Error message)
  then show ?thesis by (auto simp: errorContent_def)
next
  case Thrown
  then show ?thesis by (auto simp: errorContent_def)
qed

lemma try_catch_text:
  assumes "\<And>r. m = Inr r \<Longrightarrow> \<exists>t. r = textContent t"
  shows "\<exists>t. try_catch rt m = Inr (textContent t)"
proof (cases m)
  case (Inl err)
  then show ?thesis by (simp add: try_catch_def errorContent_text)
next
  case (Inr r)
  with assms show ?thesis by (auto simp: try_catch_def)
qed

lemma handler_text:
  "\<exists>t. try_catch rt (and_then m (\<lambda>data. and_then (f data) (\<lambda>text. Inr (textContent text))))
        = Inr (textContent t)"
  by (rule try_catch_text) (auto simp: and_then_eq_Inr)

text \<open>
  C1. Whatever is thrown, the classifier \<open>errorContent\<close> returns a text result, and so
  does every registered tool in every runtime: however the HTTP call of a tool fails
  (a status outside 200..299, a rejected \<open>fetch\<close>, a thrown value that is no \<open>Error\<close>),
  and whatever the code of the handler throws afterwards, the call of the tool returns
  a formatted text and never an exception.
\<close>

theorem gateway_never_throws:
  "(\<exists>t. errorContent rt err = Inr (textContent t)) \<and> (\<exists>t. call_tool rt c = Inr (textContent t))"
proof
  show "\<exists>t. errorContent rt err = Inr (textContent t)"
    by (rule errorContent_text)
  show "\<exists>t. call_tool rt c = Inr (textContent t)"
  proof (cases c)
    case (History limit round player)
    have "\<exists>t. lucille_history rt limit round player = Inr (textContent t)"
      unfolding lucille_history_def by (rule try_catch_text) (auto simp: and_then_eq_Inr)
    with History show ?thesis by simp
  qed (auto simp: lucille_rules_def lucille_status_def lucille_personality_def lucille_play_def
        lucille_leaderboard_def lucille_my_stats_def lucille_round_strategy_def
        lucille_verify_wallet_def lucille_claim_eth_def lucille_contract_info_def handler_text)
qed

section \<open>Rate limiting\<close>

lemma rate_limited_parts:
  "str_includes (rate_limited w) (utf16 ''wait '' @ w @ utf16 '' seconds'')
   \<and> str_includes (rate_limited w) (utf16 ''Limit: 3 plays/min per wallet, 60 reads/min.'')"
proof -
  have "rate_limited w = (hourglass @ utf16 '' Rate limited '' @ emdash @ utf16 '' '')
          @ (utf16 ''wait '' @ w @ utf16 '' seconds'') @ (utf16 '' and try again.'' @ nl
          @ utf16 ''Limit: 3 plays/min per wallet, 60 reads/min.'')"
    by (simp add: rate_limited_def utf16_def)
  moreover have "rate_limited w = (hourglass @ utf16 '' Rate limited '' @ emdash @ utf16 '' wait '' @ w
       @ utf16 '' seconds and try again.'' @ nl)
       @ utf16 ''Limit: 3 plays/min per wallet, 60 reads/min.'' @ []"
    by (simp add: rate_limited_def)
  ultimately show ?thesis
    by (metis str_includes_middle)
qed

lemma rate_limit_cases:
  "errorContent rt (ApiError 429 body) =
     (case JSON_parse rt body of
        Inl e \<Rightarrow> Inr (textContent (rate_limited (utf16 ''60'')))
      | Inr parsed \<Rightarrow>
          (case get parsed (utf16 ''retry_after_seconds'') of
             Inl e \<Rightarrow> Inr (textContent (rate_limited (utf16 ''60'')))
           | Inr r \<Rightarrow>
               (case ToString (or_else r (Num (utf16 ''60''))) of
                  Inl e \<Rightarrow> Inr (textContent (rate_limited (utf16 ''60'')))
                | Inr wait \<Rightarrow> Inr (textContent (rate_limited wait)))))"
  by (simp add: errorContent_def split: sum.splits)

lemma status_rate_limited:
  "lucille_status (sample_runtime 429 body) = errorContent (sample_runtime 429 body) (ApiError 429 body)"
  by (simp add: lucille_status_def sample_apiGet_429 try_catch_def)

text \<open>
  C2 (as amended). A response with status 429 reaches the classifier as an \<open>ApiError\<close>
  with its body (the empty string when the body cannot be read). When the body parses
  to a value whose \<open>retry_after_seconds\<close> is truthy and converts to a string, the
  guidance text states that string as the wait value: for a number other than 0, the
  text that JavaScript prints for this number (\<open>5\<close> for 5, \<open>1.5\<close> for 1.5, \<open>1e+21\<close> for
  \<open>1e21\<close>). When that property is 0 or otherwise falsy or missing, when it cannot be
  read or does not convert to a string, or when the body does not parse, the text
  states the default 60. In every case the text is the rate-limit message
  \<open>Rate limited - wait W seconds and try again.\<close>, followed on the next line by the fixed
  limits (3 plays/min, 60 reads/min). The \<open>status\<close> tool, called while the upstream
  answers 429, returns this text: with the wait value 5 for the body
  \<open>{"retry_after_seconds":5}\<close> and \<open>1e+21\<close> for the body \<open>{"retry_after_seconds":1e21}\<close>.
\<close>

theorem rate_limit_guidance:
  "(res_status res = 429 \<longrightarrow> res_text res = Inr body
      \<longrightarrow> respond rt (Inr res) = Inl (ApiError 429 body))
   \<and> (res_status res = 429 \<longrightarrow> res_text res = Inl unread
      \<longrightarrow> respond rt (Inr res) = Inl (ApiError 429 []))
   \<and> (JSON_parse rt body = Inr parsed \<longrightarrow> get parsed (utf16 ''retry_after_seconds'') = Inr (Num n)
      \<longrightarrow> n \<noteq> utf16 ''0'' \<longrightarrow> n \<noteq> utf16 ''NaN''
      \<longrightarrow> errorContent rt (ApiError 429 body) = Inr (textContent (rate_limited n)))
   \<and> (JSON_parse rt body = Inr parsed \<longrightarrow> get parsed (utf16 ''retry_after_seconds'') = Inr r
      \<longrightarrow> truthy r \<longrightarrow> ToString r = Inr shown
      \<longrightarrow> errorContent rt (ApiError 429 body) = Inr (textContent (rate_limited shown)))
   \<and> (JSON_parse rt body = Inr parsed \<longrightarrow> get parsed (utf16 ''retry_after_seconds'') = Inr r
      \<longrightarrow> truthy r \<longrightarrow> ToString r = Inl e
      \<longrightarrow> errorContent rt (ApiError 429 body) = Inr (textContent (rate_limited (utf16 ''60''))))
   \<and> (JSON_parse rt body = Inr parsed \<longrightarrow> get parsed (utf16 ''retry_after_seconds'') = Inr r
      \<longrightarrow> \<not> truthy r
      \<longrightarrow> errorContent rt (ApiError 429 body) = Inr (textContent (rate_limited (utf16 ''60''))))
   \<and> (JSON_parse rt body = Inr parsed \<longrightarrow> get parsed (utf16 ''retry_after_seconds'') = Inl e
      \<longrightarrow> errorContent rt (ApiError 429 body) = Inr (textContent (rate_limited (utf16 ''60''))))
   \<and> (JSON_parse rt body = Inl e
      \<longrightarrow> errorContent rt (ApiError 429 body) = Inr (textContent (rate_limited (utf16 ''60''))))
   \<and> (\<exists>w. errorContent rt (ApiError 429 body) = Inr (textContent (rate_limited w)))
   \<and> rate_limited w =
        hourglass @ utf16 '' Rate limited '' @ emdash @ utf16 '' wait '' @ w
          @ utf16 '' seconds and try again.'' @ nl
          @ utf16 ''Limit: 3 plays/min per wallet, 60 reads/min.''
   \<and> str_includes (rate_limited w) (utf16 ''wait '' @ w @ utf16 '' seconds'')
   \<and> str_includes (rate_limited w) (utf16 ''Limit: 3 plays/min per wallet, 60 reads/min.'')
   \<and> lucille_status (sample_runtime 429 retry_5_body)
        = Inr (textContent (rate_limited (utf16 ''5'')))
   \<and> lucille_status (sample_runtime 429 retry_big_body)
        = Inr (textContent (rate_limited (utf16 ''1e+21'')))"
proof -
  have shown: "(rate_limited w =
        hourglass @ utf16 '' Rate limited '' @ emdash @ utf16 '' wait '' @ w
          @ utf16 '' seconds and try again.'' @ nl
          @ utf16 ''Limit: 3 plays/min per wallet, 60 reads/min.'') = True"
    by (simp add: rate_limited_def)
  have "\<exists>w. errorContent rt (ApiError 429 body) = Inr (textContent (rate_limited w))"
    by (auto simp: rate_limit_cases split: sum.splits)
  moreover have "lucille_status (sample_runtime 429 retry_5_body)
        = Inr (textContent (rate_limited (utf16 ''5'')))"
    by (simp add: status_rate_limited rate_limit_cases sample_runtime_parse sample_parse_retry_5
        or_else_def)
  moreover have "lucille_status (sample_runtime 429 retry_big_body)
        = Inr (textContent (rate_limited (utf16 ''1e+21'')))"
    by (simp add: status_rate_limited rate_limit_cases sample_runtime_parse sample_parse_retry_big
        or_else_def)
  ultimately show ?thesis
    by (simp add: shown rate_limit_cases or_else_def rate_limited_parts respond_def res_ok_def)
qed

theorem rate_limit_guidance_witness:
  "errorContent (sample_runtime 429 retry_5_body) (ApiError 429 retry_5_body)
     = Inr (textContent (rate_limited (utf16 ''5'')))"
  using rate_limit_guidance [of _ retry_5_body "sample_runtime 429 retry_5_body" _
      "Obj [(utf16 ''retry_after_seconds'', Num (utf16 ''5''))]" "utf16 ''5''",
      THEN conjunct2, THEN conjunct2, THEN conjunct1]
  by (simp add: sample_runtime_parse sample_parse_retry_5)

text \<open>
  C2 as stated fails for \<open>retry_after_seconds = 0\<close>: \<open>parsed.retry_after_seconds || 60\<close>
  takes the default, and the text says to wait 60 seconds, not 0.
\<close>

theorem rate_limit_zero_counterexample:
  "errorContent (sample_runtime 429 retry_0_body) (ApiError 429 retry_0_body)
     = Inr (textContent (rate_limited (utf16 ''60'')))
   \<and> rate_limited (utf16 ''60'') \<noteq> rate_limited (utf16 ''0'')
   \<and> \<not> str_includes (rate_limited (utf16 ''60'')) (utf16 ''wait 0 seconds'')"
  by (simp add: rate_limit_cases sample_runtime_parse sample_parse_retry_0 or_else_def)
    (simp add: rate_limited_def utf16_def hourglass_def emdash_def nl_def)

section \<open>Wallet addresses\<close>

lemma match_times_iff:
  "match_times a n s = Some rest \<longleftrightarrow>
     n \<le> length s \<and> list_all (atom_matches a) (take n s) \<and> rest = drop n s"
proof (induction n arbitrary: s)
  case 0
  then show ?case by auto
next
  case (Suc n)
  then show ?case by (cases s) auto
qed

lemma match_sequence_Cons:
  "match_sequence ((a, n) # ps) s = Some rest \<longleftrightarrow>
     n \<le> length s \<and> list_all (atom_matches a) (take n s) \<and> match_sequence ps (drop n s) = Some rest"
proof (cases "match_times a n s")
  case None
  then have "\<not> (n \<le> length s \<and> list_all (atom_matches a) (take n s))"
    using match_times_iff [of a n s "drop n s"] by auto
  with None show ?thesis by auto
next
  case (Some r)
  then have "n \<le> length s \<and> list_all (atom_matches a) (take n s) \<and> r = drop n s"
    by (simp only: match_times_iff)
  with Some show ?thesis by simp
qed

lemma hex_class:
  "atom_matches (Ranges [(of_char CHR ''a'', of_char CHR ''f''), (of_char CHR ''A'', of_char CHR ''F''),
      (of_char CHR ''0'', of_char CHR ''9'')]) = is_hex_digit"
  by (auto simp: is_hex_digit_def fun_eq_iff)

lemma take2_0x: "take 2 s = utf16 ''0x'' \<longleftrightarrow> (\<exists>r. s = of_char CHR ''0'' # of_char CHR ''x'' # r)"
  by (cases s; cases "tl s") (auto simp: utf16_def numeral_2_eq_2)

lemma address_regex: "regex_test address_pattern s \<longleftrightarrow> address_shape s"
proof -
  have "regex_test address_pattern s \<longleftrightarrow>
        (\<exists>r. s = of_char CHR ''0'' # of_char CHR ''x'' # r \<and> length r = 40 \<and> list_all is_hex_digit r)"
    unfolding regex_test_def address_pattern_def match_sequence_Cons hex_class
    by (cases s; cases "tl s") (auto simp: take_Suc_conv_app_nth)
  also have "\<dots> \<longleftrightarrow> address_shape s"
    unfolding address_shape_def take2_0x by auto
  finally show ?thesis .
qed

lemma verdicts_differ: "valid_address s \<noteq> invalid_address s'"
  by (simp add: valid_address_def invalid_address_def check_def cross_def)

lemma invalid_echoes: "str_includes (invalid_address s) (dq @ s @ dq)"
proof -
  have "invalid_address s = (cross @ utf16 '' Invalid wallet address: '') @ (dq @ s @ dq)
     @ (nl @ utf16 ''Must be a 42-character hex address starting with 0x (e.g. 0x1234...abcd)'')"
    by (simp add: invalid_address_def)
  then show ?thesis by (metis str_includes_middle)
qed

lemma sample_address_shape: "address_shape sample_address"
  by (simp add: address_shape_def sample_address_def utf16_def is_hex_digit_def)

lemma short_address_shape: "\<not> address_shape (utf16 ''0x12'')"
  by (simp add: address_shape_def utf16_def)

text \<open>
  C3. \<open>verify_wallet\<close> tests its input against \<open>/^0x[a-fA-F0-9]{40}$/\<close>, and that test
  holds exactly for the strings of the address shape: 42 characters, the prefix \<open>0x\<close>,
  then 40 hexadecimal digits of either case, nothing before or after. A string of that
  shape gets the valid verdict, \<open>Valid Base wallet address:\<close> with the address and the
  guidance on the network and on test ETH; any other string gets the invalid verdict,
  \<open>Invalid wallet address:\<close> with the input, unchanged, between double quotes, and the
  expected format. The two verdicts differ, and the tool is a function of the address
  alone: the runtime, and with it the network, plays no part.
\<close>

theorem verify_wallet_regex:
  "regex_test address_pattern s = address_shape s
   \<and> (address_shape s \<longrightarrow> lucille_verify_wallet s = Inr (textContent (valid_address s)))
   \<and> (\<not> address_shape s \<longrightarrow> lucille_verify_wallet s = Inr (textContent (invalid_address s)))
   \<and> valid_address s =
        check @ utf16 '' Valid Base wallet address: '' @ s @ nl
          @ utf16 ''You can use this address to play. If you win, ETH and NFTs will be sent here.''
          @ nl @ utf16 ''Network: Base Sepolia (testnet)'' @ nl
          @ utf16 ''Need testnet ETH? Use lucille_claim_eth to get some.''
   \<and> invalid_address s =
        cross @ utf16 '' Invalid wallet address: '' @ dq @ s @ dq @ nl
          @ utf16 ''Must be a 42-character hex address starting with 0x (e.g. 0x1234...abcd)''
   \<and> str_includes (invalid_address s) (dq @ s @ dq)
   \<and> valid_address s \<noteq> invalid_address s
   \<and> call_tool rt (Verify_wallet s) = lucille_verify_wallet s"
proof -
  have valid: "(valid_address s =
        check @ utf16 '' Valid Base wallet address: '' @ s @ nl
          @ utf16 ''You can use this address to play. If you win, ETH and NFTs will be sent here.''
          @ nl @ utf16 ''Network: Base Sepolia (testnet)'' @ nl
          @ utf16 ''Need testnet ETH? Use lucille_claim_eth to get some.'') = True"
    by (simp add: valid_address_def)
  have invalid: "(invalid_address s =
        cross @ utf16 '' Invalid wallet address: '' @ dq @ s @ dq @ nl
          @ utf16 ''Must be a 42-character hex address starting with 0x (e.g. 0x1234...abcd)'') = True"
    by (simp add: invalid_address_def)
  have verdict: "lucille_verify_wallet s =
      (if address_shape s then Inr (textContent (valid_address s))
       else Inr (textContent (invalid_address s)))"
    by (simp add: lucille_verify_wallet_def address_regex)
  have "call_tool rt (Verify_wallet s) = lucille_verify_wallet s"
    by simp
  with verdict show ?thesis
    by (simp add: valid invalid address_regex invalid_echoes verdicts_differ)
qed

theorem verify_wallet_regex_witness:
  "lucille_verify_wallet sample_address = Inr (textContent (valid_address sample_address))
   \<and> lucille_verify_wallet (utf16 ''0x12'') = Inr (textContent (invalid_address (utf16 ''0x12'')))"
  using verify_wallet_regex [of sample_address] verify_wallet_regex [of "utf16 ''0x12''"]
    sample_address_shape short_address_shape
  by simp


section \<open>Pure tools\<close>

text \<open>
  C9. \<open>rules\<close> and \<open>verify_wallet\<close> are functions of their input alone: \<open>rules\<close> returns
  its fixed text and \<open>verify_wallet\<close> the verdict on the address, whatever the runtime
  (the network behind \<open>fetch\<close>, the parser, the environment), so two calls with the
  same input return the same output and no network call has a part in it.
\<close>

theorem rules_and_verify_wallet_pure:
  "call_tool rt Rules = Inr (textContent rules_text)
   \<and> call_tool rt (Verify_wallet address) = lucille_verify_wallet address
   \<and> call_tool rt Rules = call_tool rt' Rules
   \<and> call_tool rt (Verify_wallet address) = call_tool rt' (Verify_wallet address)"
  by (simp add: lucille_rules_def)

theorem rules_and_verify_wallet_pure_witness:
  "call_tool (sample_runtime 200 []) Rules = call_tool (sample_runtime 503 []) Rules
   \<and> call_tool (sample_runtime 200 []) (Verify_wallet sample_address)
     = call_tool (sample_runtime 503 []) (Verify_wallet sample_address)"
  using rules_and_verify_wallet_pure [of "sample_runtime 200 []" sample_address "sample_runtime 503 []"]
  by simp


section \<open>History filters that are empty\<close>

lemma history_query_zero: "history_query limit (Some (utf16 ''0'')) player = history_query limit None player"
  by (simp add: history_query_def opt_num_def)

lemma history_query_empty: "history_query limit round (Some []) = history_query limit round None"
  by (simp add: history_query_def opt_str_def)

lemma history_header_zero: "history_header (Some (utf16 ''0'')) player attempts = history_header None player attempts"
  by (simp add: history_header_def opt_num_def)

lemma history_header_empty: "history_header round (Some []) attempts = history_header round None attempts"
  by (simp add: history_header_def opt_str_def)

lemma history_text_zero: "history_text (Some (utf16 ''0'')) player data = history_text None player data"
  unfolding history_text_def history_header_zero by (rule refl)

lemma history_text_empty: "history_text round (Some []) data = history_text round None data"
  unfolding history_text_def history_header_empty by (rule refl)

text \<open>
  C10. \<open>history\<close> with \<open>round = 0\<close> is \<open>history\<close> without \<open>round\<close>, and \<open>history\<close> with the
  empty string as \<open>player\<close> is \<open>history\<close> without \<open>player\<close>: the query string is the same
  (with both, it is the limit alone), the header is the same (with both, it is the
  header of the recent attempts), and so is the whole call.
\<close>

theorem history_empty_filters:
  "history_query limit (Some (utf16 ''0'')) player = history_query limit None player
   \<and> history_query limit round (Some []) = history_query limit round None
   \<and> history_query limit (Some (utf16 ''0'')) (Some []) = Inr (utf16 ''/api/history?limit='' @ limit)
   \<and> history_header (Some (utf16 ''0'')) player attempts = history_header None player attempts
   \<and> history_header round (Some []) attempts = history_header round None attempts
   \<and> history_header (Some (utf16 ''0'')) (Some []) attempts =
       template [lit (utf16 ''=== Recent ''), and_then (length_of attempts) ToString,
                 lit (utf16 '' Attempts ==='' @ nl @ nl)]
   \<and> lucille_history rt limit (Some (utf16 ''0'')) player = lucille_history rt limit None player
   \<and> lucille_history rt limit round (Some []) = lucille_history rt limit round None"
  by (simp add: history_query_zero history_query_empty history_header_zero history_header_empty
      lucille_history_def history_text_zero history_text_empty)
    (simp add: history_query_def history_header_def opt_num_def opt_str_def lit_def)

section \<open>Claiming test ETH\<close>

lemma claim_eth_shapes_differ:
  "already_funded b \<noteq> cooldown_active m"
  "already_funded b \<noteq> claimed_eth a addr tx"
  "already_funded b \<noteq> echoed j"
  "cooldown_active m \<noteq> claimed_eth a addr tx"
  "cooldown_active m \<noteq> echoed j"
  "claimed_eth a addr tx \<noteq> echoed j"
  by (simp_all add: already_funded_def cooldown_active_def claimed_eth_def echoed_def
      check_def hourglass_def utf16_def)

lemma claim_eth_call:
  assumes "apiPost rt (utf16 ''/api/drip'') (Obj [(utf16 ''address'', Str address)]) = Inr data"
  shows "lucille_claim_eth rt address =
           try_catch rt (and_then (claim_eth_text address data) (\<lambda>text. Inr (textContent text)))"
  using assms by (simp add: lucille_claim_eth_def)

lemma pending_echo:
  "stringify_text (JSON_stringify
     (Obj [(utf16 ''status'', Str (utf16 ''pending'')), (utf16 ''eta'', Num (utf16 ''1.5''))]))
   = pending_body"
  by (simp add: stringify_text_def JSON_stringify_def pending_body_def bracket_def
      QuoteJSONString_def is_high_def is_low_def utf16_def dq_def)

text \<open>
  C5 (as amended). When the drip call returns a response whose \<open>status\<close> can be read
  (any response but \<open>null\<close>), the result is one of four messages: for \<open>has_balance\<close> the
  already-funded message with the balance, for \<open>cooldown\<close> the cooldown message with the
  server's message, for \<open>claimed\<close> the claimed message with amount, address and
  transaction hash (each provided the interpolated field converts to a string), and for
  any other status \<open>Result:\<close> followed by the response as \<open>JSON.stringify\<close> prints it (for
  the response \<open>{"status":"pending","eta":1.5}\<close>, followed by exactly this text). When
  the \<open>status\<close> cannot be read, or an interpolated field does not convert to a string,
  the result is the text that the error classifier gives for the error thrown. The four
  messages have the texts of the source and are pairwise different, whatever is
  interpolated.
\<close>

theorem claim_eth_shapes:
  assumes "apiPost rt (utf16 ''/api/drip'') (Obj [(utf16 ''address'', Str address)]) = Inr data"
  shows
    "(get data (utf16 ''status'') = Inl e \<longrightarrow> lucille_claim_eth rt address = errorContent rt e)
     \<and> (get data (utf16 ''status'') = Inr (Str (utf16 ''has_balance''))
        \<longrightarrow> field data (utf16 ''balance'') = Inr balance
        \<longrightarrow> lucille_claim_eth rt address = Inr (textContent (already_funded balance)))
     \<and> (get data (utf16 ''status'') = Inr (Str (utf16 ''has_balance''))
        \<longrightarrow> field data (utf16 ''balance'') = Inl e
        \<longrightarrow> lucille_claim_eth rt address = errorContent rt e)
     \<and> (get data (utf16 ''status'') = Inr (Str (utf16 ''cooldown''))
        \<longrightarrow> field data (utf16 ''message'') = Inr message
        \<longrightarrow> lucille_claim_eth rt address = Inr (textContent (cooldown_active message)))
     \<and> (get data (utf16 ''status'') = Inr (Str (utf16 ''cooldown''))
        \<longrightarrow> field data (utf16 ''message'') = Inl e
        \<longrightarrow> lucille_claim_eth rt address = errorContent rt e)
     \<and> (get data (utf16 ''status'') = Inr (Str (utf16 ''claimed''))
        \<longrightarrow> field data (utf16 ''amount'') = Inr amount
        \<longrightarrow> field data (utf16 ''txHash'') = Inr txHash
        \<longrightarrow> lucille_claim_eth rt address = Inr (textContent (claimed_eth amount address txHash)))
     \<and> (get data (utf16 ''status'') = Inr (Str (utf16 ''claimed''))
        \<longrightarrow> field data (utf16 ''amount'') = Inl e
        \<longrightarrow> lucille_claim_eth rt address = errorContent rt e)
     \<and> (get data (utf16 ''status'') = Inr (Str (utf16 ''claimed''))
        \<longrightarrow> field data (utf16 ''amount'') = Inr amount
        \<longrightarrow> field data (utf16 ''txHash'') = Inl e
        \<longrightarrow> lucille_claim_eth rt address = errorContent rt e)
     \<and> (get data (utf16 ''status'') = Inr status
        \<longrightarrow> status \<noteq> Str (utf16 ''has_balance'') \<longrightarrow> status \<noteq> Str (utf16 ''cooldown'')
        \<longrightarrow> status \<noteq> Str (utf16 ''claimed'')
        \<longrightarrow> lucille_claim_eth rt address
             = Inr (textContent (utf16 ''Result: '' @ stringify_text (JSON_stringify data))))
     \<and> already_funded b =
          check @ utf16 '' You already have enough ETH ('' @ b @ utf16 '' ETH). No drip needed.''
            @ nl @ utf16 ''You're ready to play '' @ emdash
            @ utf16 '' use lucille_contract_info to get the contract details.''
     \<and> cooldown_active m =
          hourglass @ utf16 '' Cooldown active. '' @ m @ utf16 ''. You can claim again later.''
     \<and> claimed_eth a addr tx =
          check @ utf16 '' Sent '' @ a @ utf16 '' ETH to '' @ addr @ nl @ utf16 ''TX: '' @ tx @ nl
            @ utf16 ''You're ready to play! Use lucille_contract_info to get contract details, then sign submitAttempt() on-chain.''
     \<and> echoed j = utf16 ''Result: '' @ j
     \<and> already_funded b \<noteq> cooldown_active m
     \<and> already_funded b \<noteq> claimed_eth a addr tx
     \<and> already_funded b \<noteq> echoed j
     \<and> cooldown_active m \<noteq> claimed_eth a addr tx
     \<and> cooldown_active m \<noteq> echoed j
     \<and> claimed_eth a addr tx \<noteq> echoed j
     \<and> lucille_claim_eth (sample_runtime 200 pending_body) sample_address
          = Inr (textContent (utf16 ''Result: '' @ pending_body))"
proof -
  have texts:
    "(already_funded b =
          check @ utf16 '' You already have enough ETH ('' @ b @ utf16 '' ETH). No drip needed.''
            @ nl @ utf16 ''You're ready to play '' @ emdash
            @ utf16 '' use lucille_contract_info to get the contract details.'') = True"
    "(cooldown_active m =
          hourglass @ utf16 '' Cooldown active. '' @ m @ utf16 ''. You can claim again later.'')
       = True"
    "(claimed_eth a addr tx =
          check @ utf16 '' Sent '' @ a @ utf16 '' ETH to '' @ addr @ nl @ utf16 ''TX: '' @ tx @ nl
            @ utf16 ''You're ready to play! Use lucille_contract_info to get contract details, then sign submitAttempt() on-chain.'')
       = True"
    "(echoed j = utf16 ''Result: '' @ j) = True"
    by (simp_all add: already_funded_def cooldown_active_def claimed_eth_def echoed_def)
  have pending: "lucille_claim_eth (sample_runtime 200 pending_body) sample_address
          = Inr (textContent (utf16 ''Result: '' @ pending_body))"
    by (simp add: lucille_claim_eth_def sample_apiPost sample_parse_pending claim_eth_text_def
        try_catch_def pending_echo echoed_def)
  have tool: "lucille_claim_eth rt address =
      (case claim_eth_text address data of Inl e \<Rightarrow> errorContent rt e
       | Inr t \<Rightarrow> Inr (textContent t))"
    by (simp add: claim_eth_call [OF assms] try_catch_def split: sum.splits)
  have echo: "echoed (stringify_text (JSON_stringify data))
      = utf16 ''Result: '' @ stringify_text (JSON_stringify data)"
    by (simp add: echoed_def)
  show ?thesis
    unfolding tool
    by (simp add: texts pending claim_eth_text_def claim_eth_shapes_differ echo)
qed

theorem claim_eth_shapes_witness:
  "lucille_claim_eth (sample_runtime 200 claimed_body) sample_address
     = Inr (textContent (claimed_eth (utf16 ''0.001'') sample_address (utf16 ''0xabc'')))"
  using claim_eth_shapes [of "sample_runtime 200 claimed_body" sample_address
      "Obj [(utf16 ''status'', Str (utf16 ''claimed'')), (utf16 ''amount'', Str (utf16 ''0.001'')),
            (utf16 ''txHash'', Str (utf16 ''0xabc''))]"
      _ _ _ "utf16 ''0.001''" "utf16 ''0xabc''"]
  by (simp add: sample_apiPost sample_parse_claimed field_def)

lemma null_status_not_network:
  "\<not> str_includes null_status_text (utf16 ''fetch failed'')"
  "\<not> str_includes null_status_text (utf16 ''ECONNREFUSED'')"
  by (simp_all add: null_status_text_def utf16_def apos_def)

lemma cannot_read_null_status:
  "cannot_read (utf16 ''null'') (utf16 ''status'') = Error null_status_text"
  by (simp add: cannot_read_def null_status_text_def utf16_def)

text \<open>
  C5 as stated fails for the response \<open>null\<close>: reading \<open>data.status\<close> throws, the handler
  catches the \<open>TypeError\<close>, and the result is the classifier's error text, not the
  response echoed as JSON.
\<close>

theorem claim_eth_null_counterexample:
  "lucille_claim_eth (sample_runtime 200 null_body) sample_address
     = Inr (textContent (cross @ utf16 '' Error: '' @ null_status_text))
   \<and> cross @ utf16 '' Error: '' @ null_status_text \<noteq> echoed (stringify_text (JSON_stringify Null))"
  by (simp add: lucille_claim_eth_def sample_apiPost sample_parse_null claim_eth_text_def
      try_catch_def errorContent_def cannot_read_null_status null_status_not_network)
    (simp add: echoed_def cross_def utf16_def)


section \<open>The cost line of the contract info\<close>

lemma contract_info_call:
  assumes "apiGet rt (utf16 ''/api/game-state'') = Inr data"
  shows "lucille_contract_info rt =
           try_catch rt (and_then (contract_info_text data) (\<lambda>text. Inr (textContent text)))"
  using assms by (simp add: lucille_contract_info_def)

lemma cost_line:
  "str_includes (contract_head @ cost @ contract_tail)
     (utf16 ''Current cost per attempt: '' @ cost @ utf16 '' wei'')"
proof -
  have "suffix (utf16 ''Current cost per attempt: '') contract_head"
    by (simp add: contract_head_def suffix_def)
  then obtain h where h: "contract_head = h @ utf16 ''Current cost per attempt: ''"
    by (auto simp: suffix_def)
  have "prefix (utf16 '' wei'') contract_tail"
    by (simp add: contract_tail_def)
  then obtain t where t: "contract_tail = utf16 '' wei'' @ t"
    by (auto simp: prefix_def)
  have "contract_head @ cost @ contract_tail
        = h @ (utf16 ''Current cost per attempt: '' @ cost @ utf16 '' wei'') @ t"
    by (simp add: h t)
  then show ?thesis by (simp only: str_includes_middle)
qed

lemma contract_head_text:
  "contract_head =
     utf16 ''=== Lucille Protocol '' @ emdash @ utf16 '' Contract Info ==='' @ nl @ nl
       @ utf16 ''Contract: 0xbBaBb6ced6A179A79D34Dbc4918028a9CaFbD8F8'' @ nl
       @ utf16 ''Chain: Base Sepolia (84532)'' @ nl
       @ utf16 ''RPC: https://sepolia.base.org'' @ nl
       @ utf16 ''Current cost per attempt: ''"
proof -
  have "digits chainId = utf16 ''84532''"
    by (simp add: chainId_def digits.simps utf16_def)
  then show ?thesis
    by (simp add: contract_head_def contractAddress_def rpcUrl_def utf16_def)
qed

lemma contract_tail_start:
  "prefix (utf16 '' wei'' @ nl @ nl @ utf16 ''=== How to Play On-Chain ==='' @ nl) contract_tail"
  by (simp add: contract_tail_def)

text \<open>
  C8 (as amended). For a game-state response whose properties can be read (any response
  but \<open>null\<close>) and whose \<open>currentCost\<close> is absent or falsy: when \<open>baseCost\<close> is absent too,
  the cost line uses the placeholder \<open>1\<close>, so the output contains
  \<open>Current cost per attempt: 1 wei\<close>; when \<open>baseCost\<close> is present and truthy and converts
  to a string (as every string and number does), the cost line shows that string; when
  \<open>baseCost\<close> is truthy but does not convert to a string, the result is the text of the
  error classifier for the error thrown; when \<open>baseCost\<close> is present but falsy (0, the
  empty string, \<open>false\<close>, \<open>null\<close>), the placeholder \<open>1\<close> is used as if it were absent. A
  truthy \<open>currentCost\<close> is shown itself, whatever \<open>baseCost\<close> is. The cost line
  \<open>Current cost per attempt: COST wei\<close> is the last line of the first block of the
  output, after the contract, the chain and the RPC address.
\<close>

theorem contract_info_cost:
  assumes "apiGet rt (utf16 ''/api/game-state'') = Inr data"
    and "get data (utf16 ''currentCost'') = Inr c"
    and "get data (utf16 ''baseCost'') = Inr b"
  shows
    "(\<not> truthy c \<longrightarrow> b = Undefined \<longrightarrow>
        lucille_contract_info rt = Inr (textContent (contract_head @ utf16 ''1'' @ contract_tail)))
     \<and> (\<not> truthy c \<longrightarrow> \<not> truthy b \<longrightarrow>
        lucille_contract_info rt = Inr (textContent (contract_head @ utf16 ''1'' @ contract_tail)))
     \<and> (\<not> truthy c \<longrightarrow> truthy b \<longrightarrow> ToString b = Inr cost \<longrightarrow>
        lucille_contract_info rt = Inr (textContent (contract_head @ cost @ contract_tail)))
     \<and> (\<not> truthy c \<longrightarrow> truthy b \<longrightarrow> ToString b = Inl e \<longrightarrow>
        lucille_contract_info rt = errorContent rt e)
     \<and> (\<not> truthy c \<longrightarrow> b = Str t \<longrightarrow> t \<noteq> [] \<longrightarrow>
        lucille_contract_info rt = Inr (textContent (contract_head @ t @ contract_tail)))
     \<and> (\<not> truthy c \<longrightarrow> b = Num n \<longrightarrow> n \<noteq> utf16 ''0'' \<longrightarrow> n \<noteq> utf16 ''NaN'' \<longrightarrow>
        lucille_contract_info rt = Inr (textContent (contract_head @ n @ contract_tail)))
     \<and> (truthy c \<longrightarrow> ToString c = Inr cost \<longrightarrow>
        lucille_contract_info rt = Inr (textContent (contract_head @ cost @ contract_tail)))
     \<and> (truthy c \<longrightarrow> ToString c = Inl e \<longrightarrow> lucille_contract_info rt = errorContent rt e)
     \<and> str_includes (contract_head @ cost @ contract_tail)
         (utf16 ''Current cost per attempt: '' @ cost @ utf16 '' wei'')
     \<and> contract_head =
          utf16 ''=== Lucille Protocol '' @ emdash @ utf16 '' Contract Info ==='' @ nl @ nl
            @ utf16 ''Contract: 0xbBaBb6ced6A179A79D34Dbc4918028a9CaFbD8F8'' @ nl
            @ utf16 ''Chain: Base Sepolia (84532)'' @ nl
            @ utf16 ''RPC: https://sepolia.base.org'' @ nl
            @ utf16 ''Current cost per attempt: ''
     \<and> prefix (utf16 '' wei'' @ nl @ nl @ utf16 ''=== How to Play On-Chain ==='' @ nl) contract_tail"
proof -
  have tool: "lucille_contract_info rt =
      (case ToString (or_else c (or_else b (Str (utf16 ''1'')))) of Inl e \<Rightarrow> errorContent rt e
       | Inr cost \<Rightarrow> Inr (textContent (contract_head @ cost @ contract_tail)))"
    using assms(2,3)
    by (simp add: contract_info_call [OF assms(1)] contract_info_text_def try_catch_def
        lit_def split: sum.splits)
  have head: "(contract_head =
          utf16 ''=== Lucille Protocol '' @ emdash @ utf16 '' Contract Info ==='' @ nl @ nl
            @ utf16 ''Contract: 0xbBaBb6ced6A179A79D34Dbc4918028a9CaFbD8F8'' @ nl
            @ utf16 ''Chain: Base Sepolia (84532)'' @ nl
            @ utf16 ''RPC: https://sepolia.base.org'' @ nl
            @ utf16 ''Current cost per attempt: '') = True"
    using contract_head_text by simp
  show ?thesis
    unfolding tool
    by (auto simp: head or_else_def cost_line contract_tail_start)
qed

theorem contract_info_cost_witness:
  "lucille_contract_info (sample_runtime 200 empty_object_body)
     = Inr (textContent (contract_head @ utf16 ''1'' @ contract_tail))
   \<and> lucille_contract_info (sample_runtime 200 base_cost_5_body)
     = Inr (textContent (contract_head @ utf16 ''5'' @ contract_tail))"
  using contract_info_cost [of "sample_runtime 200 empty_object_body" "Obj []" Undefined Undefined]
    contract_info_cost [of "sample_runtime 200 base_cost_5_body"
      "Obj [(utf16 ''baseCost'', Str (utf16 ''5''))]" Undefined "Str (utf16 ''5'')" "utf16 ''5''"]
  by (simp add: sample_apiGet sample_parse_empty_object sample_parse_base_cost_5)

text \<open>
  C8 as stated fails for \<open>baseCost = 0\<close>: \<open>data.baseCost || "1"\<close> takes the placeholder, and
  the cost line says 1 wei, not 0.
\<close>

theorem contract_info_zero_counterexample:
  "lucille_contract_info (sample_runtime 200 base_cost_0_body)
     = Inr (textContent (contract_head @ utf16 ''1'' @ contract_tail))
   \<and> contract_head @ utf16 ''1'' @ contract_tail \<noteq> contract_head @ utf16 ''0'' @ contract_tail"
  by (simp add: lucille_contract_info_def sample_apiGet sample_parse_base_cost_0
      contract_info_text_def try_catch_def or_else_def lit_def)


section \<open>Slices of addresses and messages\<close>

lemma js_slice_first: "0 \<le> n \<Longrightarrow> js_slice xs 0 (Some n) = take (nat n) xs"
  by (simp add: js_slice_def clamp_index_def Let_def min_def)

lemma js_slice_last: "0 < n \<Longrightarrow> js_slice xs (- n) None = drop (length xs - nat n) xs"
proof -
  assume n: "0 < n"
  have "nat (max (int (length xs) - n) 0) = length xs - nat n"
    using n by (simp add: max_def nat_diff_distrib')
  then show ?thesis using n
    by (simp add: js_slice_def clamp_index_def Let_def)
qed








section \<open>Plain attempts\<close>

text \<open>
  For an attempt as the specification reads it, every step of the rendering succeeds,
  and the key and the entry are those of the specification.
\<close>

lemma digits_nonempty: "digits n \<noteq> []"
  by (subst digits.simps) simp

lemma digits_eq_zero: "digits n = utf16 ''0'' \<longleftrightarrow> n = 0"
proof (cases "n < 10")
  case True
  then show ?thesis by (subst digits.simps) (simp add: utf16_def)
next
  case False
  then have "digits n = digits (n div 10) @ [48 + n mod 10]"
    by (subst digits.simps) simp
  with False digits_nonempty [of "n div 10"] show ?thesis
    by (cases "digits (n div 10)") (auto simp: utf16_def)
qed

lemma get_attr: "a \<noteq> Undefined \<Longrightarrow> a \<noteq> Null \<Longrightarrow> get a k = Inr (attr a k)"
  by (cases a) (simp_all add: attr_def)

lemma ToString_primitive: "primitive v \<Longrightarrow> ToString v = Inr (prim_text v)"
  by (cases v) simp_all

lemma ToString_or_else:
  "primitive v \<Longrightarrow> ToString (or_else v (Str d)) = Inr (if truthy v then prim_text v else d)"
  by (simp add: or_else_def ToString_primitive)

lemma plain_key:
  assumes "plain_attempt a"
  shows "group_key a = Inr (key_text a)"
  using assms
  by (simp add: plain_attempt_def group_key_def key_text_def get_attr ToString_or_else lit_def)

lemma plain_badge:
  assumes "plain_attempt a"
  shows "history_badge a =
           Inr (if truthy (attr a (utf16 ''won'')) then trophy @ utf16 '' WIN''
                else utf16 ''Score: '' @ prim_text (attr a (utf16 ''score'')))"
  using assms
  by (simp add: plain_attempt_def history_badge_def get_attr field_def ToString_primitive lit_def)

lemma plain_source:
  assumes "plain_attempt a"
  shows "history_source a =
           Inr (if attr a (utf16 ''source'') = Str (utf16 ''agent'') then utf16 '' '' @ robot else [])"
  using assms by (simp add: plain_attempt_def history_source_def get_attr)

lemma short_address_slices:
  assumes "text_or_falsy v"
  shows "(if truthy v
          then template
                 [and_then (call_slice e v 0 (Some 6)) ToString,
                  lit (utf16 ''...''),
                  and_then (call_slice e v (- 4) None) ToString]
          else Inr (utf16 ''???'')) = Inr (short_address v)"
  using assms by (cases v) (simp_all add: lit_def js_slice_first js_slice_last)

lemma plain_addr:
  assumes "plain_attempt a"
  shows "history_addr a = Inr (short_address (attr a (utf16 ''player'')))"
  using assms by (simp add: plain_attempt_def history_addr_def get_attr short_address_slices)

lemma cut_200_slice:
  assumes "text_or_falsy v"
  shows "and_then (call_slice e (or_else v (Str [])) 0 (Some 200)) ToString = Inr (cut_200 v)"
  using assms by (cases v) (simp_all add: or_else_def js_slice_first)

lemma plain_clip:
  assumes "a \<noteq> Undefined" and "a \<noteq> Null" and "text_or_falsy (attr a k)"
  shows "history_clip a k = Inr (cut_200 (attr a k))"
  using assms by (simp add: history_clip_def get_attr cut_200_slice)

lemma plain_entry:
  assumes "plain_attempt a"
  shows "history_item i a = Inr (digits (i + 1) @ utf16 ''. ['' @ entry_text a)"
proof -
  from assms have "history_clip a (utf16 ''message'') = Inr (cut_200 (attr a (utf16 ''message'')))"
    and "history_clip a (utf16 ''response'') = Inr (cut_200 (attr a (utf16 ''response'')))"
    by (simp_all add: plain_attempt_def plain_clip)
  then show ?thesis
    by (simp add: history_item_def plain_badge [OF assms] plain_source [OF assms]
        plain_addr [OF assms] entry_text_def lit_def)
qed

lemma history_items_plain:
  assumes "\<forall>a\<in>set items. plain_attempt a"
  shows "history_items i items =
           Inr (concat (map (\<lambda>(j, e). digits (j + 1) @ utf16 ''. ['' @ e)
                  (enumerate i (map entry_text items))))"
  using assms by (induction items arbitrary: i) (simp_all add: plain_entry)

lemma history_groups_plain:
  assumes "\<forall>g\<in>set gs. \<forall>a\<in>set (snd g). plain_attempt a"
  shows "history_groups gs =
           Inr (concat (map (\<lambda>(k, items). utf16 ''--- '' @ k @ utf16 '' ---'' @ nl
                  @ numbered (map entry_text items)) gs))"
  using assms
  by (induction gs rule: history_groups.induct) (simp_all add: history_items_plain numbered_def)

lemma history_header_text:
  "history_header round player (Arr as) = Inr (header_text round player (length as))"
proof (cases "truthy (opt_num round)")
  case True
  then show ?thesis
    by (cases round) (simp_all add: history_header_def header_text_def opt_num_def lit_def)
next
  case no_round: False
  show ?thesis
  proof (cases "truthy (opt_str player)")
    case True
    with no_round show ?thesis
      by (cases player)
        (simp_all add: history_header_def header_text_def opt_str_def lit_def js_slice_first)
  next
    case False
    with no_round show ?thesis
      by (simp add: history_header_def header_text_def lit_def)
  qed
qed


section \<open>Grouping the attempts\<close>

lemma set_first_seen [simp]: "set (first_seen ks) = set ks"
  by (induction ks) auto

lemma distinct_first_seen [simp]: "distinct (first_seen ks)"
  by (induction ks) (auto simp: distinct_removeAll)

lemma first_seen_snoc:
  "first_seen (ks @ [k]) = (if k \<in> set ks then first_seen ks else first_seen ks @ [k])"
  by (induction ks) auto

lemma map_of_grouped_by_key:
  "map_of (grouped_by_key kas) k = None \<longleftrightarrow> k \<notin> fst ` set kas"
  by (simp add: grouped_by_key_def map_of_eq_None_iff image_image)

lemma grouped_by_key_snoc:
  "grouped_by_key (kas @ [(k, a)]) = push_group (grouped_by_key kas) k a"
proof (cases "k \<in> fst ` set kas")
  case True
  then have "map_of (grouped_by_key kas) k \<noteq> None"
    by (simp add: map_of_grouped_by_key)
  with True show ?thesis
    by (auto simp: grouped_by_key_def push_group_def first_seen_snoc)
next
  case False
  then have none: "map_of (grouped_by_key kas) k = None"
    by (simp add: map_of_grouped_by_key)
  from False have "filter (\<lambda>ka. fst ka = k) kas = []"
    by (auto simp: filter_empty_conv)
  moreover from False have "\<forall>k' \<in> set (first_seen (map fst kas)). k' \<noteq> k"
    by auto
  ultimately show ?thesis
    using False none by (auto simp: grouped_by_key_def push_group_def first_seen_snoc)
qed

lemma foldl_push_group:
  "foldl (\<lambda>g ka. push_group g (fst ka) (snd ka)) [] kas = grouped_by_key kas"
proof (induction kas rule: rev_induct)
  case Nil
  then show ?case by (simp add: grouped_by_key_def)
next
  case (snoc ka kas)
  then show ?case by (cases ka) (simp add: grouped_by_key_snoc)
qed

lemma group_attempts_foldl:
  assumes "map group_key as = map Inr ks"
  shows "group_attempts as g = Inr (foldl (\<lambda>g ka. push_group g (fst ka) (snd ka)) g (zip ks as))"
  using assms
proof (induction as arbitrary: ks g)
  case Nil
  then show ?case by simp
next
  case (Cons a as)
  then obtain k ks' where ks: "ks = k # ks'" "group_key a = Inr k" "map group_key as = map Inr ks'"
    by (cases ks) auto
  with Cons.IH [of ks' "push_group g k a"] show ?case by simp
qed

lemma group_attempts_grouped:
  assumes "map group_key as = map Inr ks"
  shows "group_attempts as [] = Inr (grouped_by_key (zip ks as))"
  using group_attempts_foldl [OF assms, of "[]"] by (simp add: foldl_push_group)

lemma grouped_keys:
  assumes "length ks = length as"
  shows "map fst (grouped_by_key (zip ks as)) = first_seen ks"
  using assms by (simp add: grouped_by_key_def comp_def)

lemma grouped_members:
  assumes "g \<in> set (grouped_by_key kas)"
  shows "set (snd g) \<subseteq> snd ` set kas"
  using assms by (auto simp: grouped_by_key_def)

lemma grouped_map:
  "grouped_by_key (zip ks (map f as)) =
     map (\<lambda>(k, items). (k, map f items)) (grouped_by_key (zip ks as))"
proof -
  have pairs: "zip ks (map f as) = map (\<lambda>(k, a). (k, f a)) (zip ks as)"
    by (simp add: zip_map2)
  have keys: "map fst (map (\<lambda>(k, a). (k, f a)) (zip ks as)) = map fst (zip ks as)"
    by (simp add: case_prod_unfold)
  have members: "map snd (filter (\<lambda>ka. fst ka = k) (map (\<lambda>(k, a). (k, f a)) (zip ks as)))
      = map f (map snd (filter (\<lambda>ka. fst ka = k) (zip ks as)))" for k
    by (simp add: filter_map comp_def case_prod_unfold)
  show ?thesis
    unfolding pairs grouped_by_key_def keys members by simp
qed

lemma plain_keys:
  assumes "\<forall>a\<in>set as. plain_attempt a"
  shows "map group_key as = map Inr (map key_text as)"
  using assms by (simp add: plain_key)

lemma plain_body:
  assumes "\<forall>a\<in>set as. plain_attempt a"
  shows "history_groups (grouped_by_key (zip (map key_text as) as))
           = Inr (grouped_text (zip (map key_text as) (map entry_text as)))"
proof -
  have "\<forall>g\<in>set (grouped_by_key (zip (map key_text as) as)). \<forall>a\<in>set (snd g). plain_attempt a"
  proof (intro ballI)
    fix g a
    assume "g \<in> set (grouped_by_key (zip (map key_text as) as))" and "a \<in> set (snd g)"
    then have "a \<in> snd ` set (zip (map key_text as) as)"
      using grouped_members by blast
    then have "a \<in> set as"
      by (auto dest: set_zip_rightD)
    with assms show "plain_attempt a" by simp
  qed
  then show ?thesis
    by (simp add: history_groups_plain grouped_text_def grouped_map comp_def case_prod_unfold)
qed

lemma history_query_text:
  "history_query limit round player =
     Inr (utf16 ''/api/history?limit='' @ limit
       @ (if truthy (opt_num round) then utf16 ''&round='' @ prim_text (opt_num round) else [])
       @ (if truthy (opt_str player) then utf16 ''&player='' @ prim_text (opt_str player) else []))"
  by (cases round; cases player) (simp_all add: history_query_def opt_num_def opt_str_def lit_def)

lemma history_text_attempts:
  assumes "attempts_of data = Inr (Arr as)" and "as \<noteq> []"
  shows "history_text round player data =
           and_then (group_attempts as []) (\<lambda>grouped.
           and_then (history_header round player (Arr as)) (\<lambda>header.
           and_then (history_groups grouped) (\<lambda>body. Inr (trim (header @ body)))))"
  using assms by (simp add: history_text_def digits_eq_zero)

lemma history_text_plain:
  assumes "attempts_of data = Inr (Arr as)" and "as \<noteq> []" and "\<forall>a\<in>set as. plain_attempt a"
  shows "history_text round player data =
           Inr (trim (header_text round player (length as)
                  @ grouped_text (zip (map key_text as) (map entry_text as))))"
  by (simp add: history_text_attempts [OF assms(1,2)]
      group_attempts_grouped [OF plain_keys [OF assms(3)]] history_header_text
      plain_body [OF assms(3)])

lemma history_tool_plain:
  assumes "history_query limit round player = Inr q" and "apiGet rt q = Inr data"
    and "attempts_of data = Inr (Arr as)" and "as \<noteq> []" and "\<forall>a\<in>set as. plain_attempt a"
  shows "lucille_history rt limit round player =
           Inr (textContent (trim (header_text round player (length as)
                  @ grouped_text (zip (map key_text as) (map entry_text as)))))"
  by (simp add: lucille_history_def assms(1,2) history_text_plain [OF assms(3,4,5)] try_catch_def)

lemma trim_tail:
  assumes "s \<noteq> []" and "\<not> is_space (hd s)" and "\<not> is_space (last s)" and "list_all is_space w"
  shows "trim (s @ w) = s"
proof -
  from assms(1,2) have front: "dropWhile is_space (s @ w) = s @ w"
    by (cases s) auto
  from assms(4) have "dropWhile is_space (rev w @ rev s) = dropWhile is_space (rev s)"
    by (intro dropWhile_append2) (simp add: list_all_iff)
  also from assms(1,3) have "\<dots> = rev s"
    by (cases s rule: rev_cases) auto
  finally show ?thesis by (simp add: trim_def front)
qed

lemma key_A: "group_key attempt_A = Inr (utf16 ''A (Round 1)'')"
  by (simp add: group_key_def attempt_A_def or_else_def lit_def utf16_merge)

lemma key_B: "group_key attempt_B = Inr (utf16 ''B (Round 2)'')"
  by (simp add: group_key_def attempt_B_def or_else_def lit_def utf16_merge)

lemma plain_A: "plain_attempt attempt_A"
  by (simp add: plain_attempt_def attr_def attempt_A_def)

lemma plain_B: "plain_attempt attempt_B"
  by (simp add: plain_attempt_def attr_def attempt_B_def)

lemma three_attempts_groups:
  "group_attempts [attempt_A, attempt_B, attempt_A] [] =
     Inr [(utf16 ''A (Round 1)'', [attempt_A, attempt_A]), (utf16 ''B (Round 2)'', [attempt_B])]"
  by (simp add: key_A key_B push_group_def)

lemma bare_item:
  assumes "a = Obj [(utf16 ''personality'', p), (utf16 ''round'', r)]"
  shows "history_item i a =
     Inr (digits (Suc i) @ utf16 ''. [Score: undefined] ???'' @ nl
          @ utf16 ''   Message: '' @ dq @ dq @ nl
          @ utf16 ''   Lucille: '' @ dq @ dq @ nl @ nl)"
proof -
  have "history_badge a = Inr (utf16 ''Score: undefined'')"
    by (simp add: assms history_badge_def field_def lit_def utf16_merge)
  moreover have "history_source a = Inr []"
    by (simp add: assms history_source_def)
  moreover have "history_addr a = Inr (utf16 ''???'')"
    by (simp add: assms history_addr_def)
  moreover have "history_clip a (utf16 ''message'') = Inr []"
    by (simp add: assms history_clip_def or_else_def js_slice_def clamp_index_def)
  moreover have "history_clip a (utf16 ''response'') = Inr []"
    by (simp add: assms history_clip_def or_else_def js_slice_def clamp_index_def)
  ultimately show ?thesis
    by (simp add: history_item_def lit_def utf16_merge)
qed

lemma three_attempts_body:
  "history_groups [(utf16 ''A (Round 1)'', [attempt_A, attempt_A]), (utf16 ''B (Round 2)'', [attempt_B])]
     = Inr (utf16 ''--- A (Round 1) ---'' @ nl
       @ utf16 ''1. [Score: undefined] ???'' @ nl
       @ utf16 ''   Message: '' @ dq @ dq @ nl
       @ utf16 ''   Lucille: '' @ dq @ dq @ nl @ nl
       @ utf16 ''2. [Score: undefined] ???'' @ nl
       @ utf16 ''   Message: '' @ dq @ dq @ nl
       @ utf16 ''   Lucille: '' @ dq @ dq @ nl @ nl
       @ utf16 ''--- B (Round 2) ---'' @ nl
       @ utf16 ''1. [Score: undefined] ???'' @ nl
       @ utf16 ''   Message: '' @ dq @ dq @ nl
       @ utf16 ''   Lucille: '' @ dq @ dq @ nl @ nl)"
  by (simp add: bare_item [OF attempt_A_def] bare_item [OF attempt_B_def] small_numbers
      utf16_merge)

lemma three_attempts_trim: "trim (three_attempts_text @ nl @ nl) = three_attempts_text"
  by (rule trim_tail)
    (simp_all add: three_attempts_text_def hd_utf16 is_space_def nl_def dq_def)

lemma three_attempts_history:
  "history_text None None (Arr [attempt_A, attempt_B, attempt_A]) = Inr three_attempts_text"
proof -
  have header: "history_header None None (Arr [attempt_A, attempt_B, attempt_A])
      = Inr (utf16 ''=== Recent 3 Attempts ==='' @ nl @ nl)"
    by (simp add: history_header_def opt_num_def opt_str_def lit_def small_numbers utf16_merge)
  have "history_text None None (Arr [attempt_A, attempt_B, attempt_A])
      = Inr (trim (three_attempts_text @ nl @ nl))"
    by (simp add: history_text_def attempts_of_def three_attempts_groups header
        three_attempts_body three_attempts_text_def utf16_merge small_numbers
        del: group_attempts.simps history_groups.simps)
  then show ?thesis by (simp add: three_attempts_trim)
qed

lemma three_attempts_tool:
  "lucille_history (sample_runtime 200 attempts_body) (utf16 ''20'') None None
     = Inr (textContent three_attempts_text)"
proof -
  have "history_query (utf16 ''20'') None None = Inr (utf16 ''/api/history?limit=20'')"
    by (simp add: history_query_def opt_num_def opt_str_def lit_def utf16_merge)
  then show ?thesis
    by (simp add: lucille_history_def sample_apiGet sample_parse_attempts three_attempts_history
        try_catch_def)
qed

lemma group_key_given:
  assumes "get a (utf16 ''personality'') = Inr (Str p)" and "p \<noteq> []"
    and "get a (utf16 ''round'') = Inr (Num r)" and "r \<noteq> utf16 ''0''" and "r \<noteq> utf16 ''NaN''"
  shows "group_key a = Inr (p @ utf16 '' (Round '' @ r @ utf16 '')'')"
  using assms by (simp add: group_key_def lit_def or_else_def)

lemma group_key_default:
  assumes "get a (utf16 ''personality'') = Inr p" and "\<not> truthy p"
    and "get a (utf16 ''round'') = Inr r" and "\<not> truthy r"
  shows "group_key a = Inr (utf16 ''Unknown (Round ?)'')"
  using assms by (simp add: group_key_def lit_def or_else_def utf16_merge)

lemma key_round_0: "group_key attempt_round_0 = Inr (utf16 ''A (Round ?)'')"
  by (simp add: group_key_def attempt_round_0_def or_else_def lit_def utf16_merge)

lemma round_0_trim: "trim (round_0_text @ nl @ nl) = round_0_text"
  by (rule trim_tail)
    (simp_all add: round_0_text_def hd_utf16 is_space_def nl_def dq_def)

lemma round_0_history: "history_text None None (Arr [attempt_round_0]) = Inr round_0_text"
proof -
  have header: "history_header None None (Arr [attempt_round_0])
      = Inr (utf16 ''=== Recent 1 Attempts ==='' @ nl @ nl)"
    by (simp add: history_header_def opt_num_def opt_str_def lit_def small_numbers utf16_merge)
  have groups: "group_attempts [attempt_round_0] [] = Inr [(utf16 ''A (Round ?)'', [attempt_round_0])]"
    by (simp add: key_round_0 push_group_def)
  have body: "history_groups [(utf16 ''A (Round ?)'', [attempt_round_0])]
     = Inr (utf16 ''--- A (Round ?) ---'' @ nl
       @ utf16 ''1. [Score: undefined] ???'' @ nl
       @ utf16 ''   Message: '' @ dq @ dq @ nl
       @ utf16 ''   Lucille: '' @ dq @ dq @ nl @ nl)"
    by (simp add: bare_item [OF attempt_round_0_def] small_numbers utf16_merge)
  have "history_text None None (Arr [attempt_round_0]) = Inr (trim (round_0_text @ nl @ nl))"
    by (simp add: history_text_def attempts_of_def groups header body round_0_text_def utf16_merge
        small_numbers del: group_attempts.simps history_groups.simps)
  then show ?thesis by (simp add: round_0_trim)
qed

text \<open>
  C4 (as amended). Let the upstream return a non-empty list of attempts, each a value
  other than \<open>null\<close> whose personality, round and score are primitive values (a string,
  a number, a boolean, \<open>null\<close>, or absent) and whose player, message and response are
  strings or falsy. Then the key of each attempt is \<open>{personality} (Round {round})\<close>, in
  which a falsy personality (missing, empty) is written \<open>Unknown\<close> and a falsy round
  (missing, 0) is written \<open>?\<close>; the loop of the source groups the attempts as the
  specification says, the keys in first-seen order and under each key the attempts
  that have it, in their order; the entry of an attempt at position \<open>i\<close> (from 0) of its
  group is the index \<open>i + 1\<close>, \<open>. [\<close> and the text of the attempt; and the tool returns
  the header followed by the groups in first-seen order, each its title line
  \<open>--- key ---\<close> followed by its entries with their 1-based indices, the whole without
  the white space at its end. For the three attempts A/1, B/2, A/1 there are two groups,
  \<open>A (Round 1)\<close> with two entries before \<open>B (Round 2)\<close> with one, and the tool returns
  the text \<open>three_attempts_text\<close>. The list of attempts is the response itself when that is
  an array, and its \<open>attempts\<close> otherwise; the request is for \<open>/api/history\<close> with the
  limit and with the round and the player that are given.
\<close>

theorem history_grouping:
  assumes "history_query limit round player = Inr q" and "apiGet rt q = Inr data"
    and "attempts_of data = Inr (Arr as)" and "as \<noteq> []" and "\<forall>x\<in>set as. plain_attempt x"
  shows
    "map group_key as = map Inr (map key_text as)
     \<and> group_attempts as [] = Inr (grouped_by_key (zip (map key_text as) as))
     \<and> map fst (grouped_by_key (zip (map key_text as) as)) = first_seen (map key_text as)
     \<and> (\<forall>x\<in>set as. \<forall>i. history_item i x = Inr (digits (i + 1) @ utf16 ''. ['' @ entry_text x))
     \<and> lucille_history rt limit round player =
         Inr (textContent (trim (header_text round player (length as)
                @ grouped_text (zip (map key_text as) (map entry_text as)))))
     \<and> (get a (utf16 ''personality'') = Inr (Str p) \<longrightarrow> p \<noteq> []
        \<longrightarrow> get a (utf16 ''round'') = Inr (Num r) \<longrightarrow> r \<noteq> utf16 ''0'' \<longrightarrow> r \<noteq> utf16 ''NaN''
        \<longrightarrow> group_key a = Inr (p @ utf16 '' (Round '' @ r @ utf16 '')''))
     \<and> (get a (utf16 ''personality'') = Inr v \<longrightarrow> \<not> truthy v
        \<longrightarrow> get a (utf16 ''round'') = Inr w \<longrightarrow> \<not> truthy w
        \<longrightarrow> group_key a = Inr (utf16 ''Unknown (Round ?)''))
     \<and> group_attempts [attempt_A, attempt_B, attempt_A] [] =
         Inr [(utf16 ''A (Round 1)'', [attempt_A, attempt_A]), (utf16 ''B (Round 2)'', [attempt_B])]
     \<and> lucille_history (sample_runtime 200 attempts_body) (utf16 ''20'') None None
         = Inr (textContent three_attempts_text)
     \<and> attempts_of (Arr xs) = Inr (Arr xs)
     \<and> (\<not> isArray d \<longrightarrow> get d (utf16 ''attempts'') = Inr f
        \<longrightarrow> attempts_of d = Inr (if truthy f then f else Arr []))
     \<and> q = utf16 ''/api/history?limit='' @ limit
           @ (if truthy (opt_num round) then utf16 ''&round='' @ prim_text (opt_num round) else [])
           @ (if truthy (opt_str player) then utf16 ''&player='' @ prim_text (opt_str player) else [])"
proof -
  have keys: "map fst (grouped_by_key (zip (map key_text as) as)) = first_seen (map key_text as)"
    by (rule grouped_keys) simp
  have listed: "attempts_of (Arr xs) = Inr (Arr xs)"
    by (simp add: attempts_of_def)
  have wrapped: "\<not> isArray d \<longrightarrow> get d (utf16 ''attempts'') = Inr f
        \<longrightarrow> attempts_of d = Inr (if truthy f then f else Arr [])"
    by (simp add: attempts_of_def or_else_def)
  have query: "q = utf16 ''/api/history?limit='' @ limit
           @ (if truthy (opt_num round) then utf16 ''&round='' @ prim_text (opt_num round) else [])
           @ (if truthy (opt_str player) then utf16 ''&player='' @ prim_text (opt_str player) else [])"
    using assms(1) by (simp add: history_query_text)
  have entries: "\<forall>x\<in>set as. \<forall>i. history_item i x = Inr (digits (i + 1) @ utf16 ''. ['' @ entry_text x)"
    using assms(5) by (simp add: plain_entry)
  show ?thesis
    using plain_keys [OF assms(5)] group_attempts_grouped [OF plain_keys [OF assms(5)]] keys entries
      history_tool_plain [OF assms] three_attempts_groups three_attempts_tool
      group_key_given [of a p r] group_key_default [of a v w] listed wrapped query
    by blast
qed

theorem history_grouping_witness:
  "group_attempts [attempt_A, attempt_B, attempt_A] [] =
     Inr (grouped_by_key (zip (map key_text [attempt_A, attempt_B, attempt_A])
            [attempt_A, attempt_B, attempt_A]))
   \<and> trim (header_text None None (length [attempt_A, attempt_B, attempt_A])
        @ grouped_text (zip (map key_text [attempt_A, attempt_B, attempt_A])
            (map entry_text [attempt_A, attempt_B, attempt_A])))
     = three_attempts_text"
  using history_grouping [where limit = "utf16 ''20''" and round = None and player = None
      and q = "utf16 ''/api/history?limit=20''" and rt = "sample_runtime 200 attempts_body"
      and data = "Arr [attempt_A, attempt_B, attempt_A]" and as = "[attempt_A, attempt_B, attempt_A]"
      and a = attempt_A and p = "utf16 ''A''" and r = "utf16 ''1''" and v = Undefined
      and w = Undefined and xs = "[]" and d = Null and f = Undefined]
  by (auto simp: history_query_def opt_num_def opt_str_def lit_def utf16_merge sample_apiGet
      sample_parse_attempts attempts_of_def plain_A plain_B textContent_def
      simp del: group_attempts.simps)

text \<open>
  C4 as stated fails for an attempt of round 0: \<open>a.round || "?"\<close> writes the round as
  \<open>?\<close>, so its group is \<open>A (Round ?)\<close> and not \<open>A (Round 0)\<close>.
\<close>

theorem history_round_0_counterexample:
  "group_key attempt_round_0 = Inr (utf16 ''A (Round ?)'')
   \<and> utf16 ''A (Round ?)'' \<noteq> utf16 ''A'' @ utf16 '' (Round '' @ utf16 ''0'' @ utf16 '')''
   \<and> history_text None None (Arr [attempt_round_0]) = Inr round_0_text"
  by (simp add: key_round_0 round_0_history)
    (simp add: utf16_def)


section \<open>Truncated addresses\<close>























end
